theory Spec2Isabelle
  imports Main "HOL-Library.AList"
begin

unbundle bit_operations_syntax

section \<open>Python values, exceptions and dictionaries\<close>

text \<open>
  The server is a Python module: every tool adapter takes simple arguments, calls one
  method of the Kaggle client object \<open>api\<close> and returns a \<open>dict\<close>. Values that flow
  through the adapters are modelled by one datatype. An object (\<open>PObj\<close>) carries the three
  things the adapters ask of it: the result of its \<open>to_dict()\<close> method when it has one
  (\<open>hasattr(x, "to_dict")\<close>), the attributes that \<open>x.name\<close> and \<open>getattr\<close> can read, and
  its instance dictionary \<open>x.__dict__\<close>. A \<open>dict\<close> is an association list with string
  keys, read with \<open>map_of\<close>.
\<close>

type_synonym path = string

datatype pyval =
    PNone
  | PBool bool
  | PInt int
  | PStr string
  | PList "pyval list"
  | PDict "(string \<times> pyval) list"
  | PObj "(string \<times> pyval) list option" "(string \<times> pyval) list" "(string \<times> pyval) list"

type_synonym pydict = "(string \<times> pyval) list"

text \<open>An exception: its class name and \<open>str(e)\<close>.\<close>

datatype exn = Exn (exn_class: string) (exn_str: string)

text \<open>Python truthiness, as used by \<open>not x\<close>, \<open>x or y\<close> and \<open>if x\<close>.\<close>

fun truthy :: "pyval \<Rightarrow> bool" where
  "truthy PNone = False"
| "truthy (PBool b) = b"
| "truthy (PInt i) = (i \<noteq> 0)"
| "truthy (PStr s) = (s \<noteq> [])"
| "truthy (PList xs) = (xs \<noteq> [])"
| "truthy (PDict d) = (d \<noteq> [])"
| "truthy (PObj t a v) = True"

fun type_name :: "pyval \<Rightarrow> string" where
  "type_name PNone = ''NoneType''"
| "type_name (PBool b) = ''bool''"
| "type_name (PInt i) = ''int''"
| "type_name (PStr s) = ''str''"
| "type_name (PList xs) = ''list''"
| "type_name (PDict d) = ''dict''"
| "type_name (PObj t a v) = ''object''"

text \<open>\<open>str(n)\<close> for a length, as formatted into the messages.\<close>

fun str_nat :: "nat \<Rightarrow> string" where
  "str_nat n = (if n < 10 then [''0123456789'' ! n]
                else str_nat (n div 10) @ [''0123456789'' ! (n mod 10)])"

text \<open>A text between single quotes, as the messages show identifiers.\<close>

definition sq :: "string \<Rightarrow> string" where
  "sq s = CHR 0x27 # s @ [CHR 0x27]"

definition opt_str :: "string option \<Rightarrow> pyval" where
  "opt_str s = (case s of None \<Rightarrow> PNone | Some t \<Rightarrow> PStr t)"

definition opt_int :: "int option \<Rightarrow> pyval" where
  "opt_int s = (case s of None \<Rightarrow> PNone | Some t \<Rightarrow> PInt t)"

text \<open>\<open>json.dump\<close> accepts \<open>None\<close>, booleans, integers, strings, lists and dicts with
  string keys; any other object makes it raise \<open>TypeError\<close>, with a text that
  names the class of the object. Objects carry no class name here: their class reads
  \<open>object\<close>, as in \<open>type_name\<close>.\<close>

fun json_ok :: "pyval \<Rightarrow> bool" where
  "json_ok (PList xs) = (\<forall>x \<in> set xs. json_ok x)"
| "json_ok (PDict d) = (\<forall>x \<in> set (map snd d). json_ok x)"
| "json_ok (PObj t a v) = False"
| "json_ok _ = True"

section \<open>The file system, the process and the log of delegate calls\<close>

text \<open>
  What a file holds: the text \<open>json.dump\<close> produced for a value (so that parsing it gives
  the value back), the beginning of such a text when \<open>json.dump\<close> raised half way, or
  any other text.
\<close>

datatype fcontent = JsonText pyval | PartialJson | RawText string

text \<open>How a delegate call was made: through \<open>loop.run_in_executor\<close> (on a worker thread)
  or by a plain call in the adapter body.\<close>

datatype dispatch = Executor | Direct

text \<open>A call of the Kaggle client: method name, positional and keyword arguments.\<close>

datatype api_call = Api string "pyval list" "(string \<times> pyval) list"

record world =
  w_dirs :: "path list"
  w_files :: "(path \<times> fcontent \<times> nat) list"
  w_cwd :: path
  w_home :: path
  w_umask :: nat
  w_log :: "(dispatch \<times> api_call) list"

definition isdir :: "world \<Rightarrow> path \<Rightarrow> bool" where
  "isdir w p = (p \<in> set (w_dirs w))"

definition isfile :: "world \<Rightarrow> path \<Rightarrow> bool" where
  "isfile w p = (map_of (w_files w) p \<noteq> None)"

definition exists :: "world \<Rightarrow> path \<Rightarrow> bool" where
  "exists w p = (isdir w p \<or> isfile w p)"

text \<open>\<open>os.path.join(a, b)\<close> of posixpath, for two components.\<close>

definition path_join :: "path \<Rightarrow> path \<Rightarrow> path" where
  "path_join a b =
     (if b \<noteq> [] \<and> hd b = CHR ''/'' then b
      else if a = [] \<or> last a = CHR ''/'' then a @ b
      else a @ ''/'' @ b)"

definition rstrip_slash :: "path \<Rightarrow> path" where
  "rstrip_slash p = rev (dropWhile (\<lambda>c. c = CHR ''/'') (rev p))"

text \<open>\<open>os.path.dirname\<close>: everything up to the last slash, without trailing slashes
  unless it is the root.\<close>

definition dirname :: "path \<Rightarrow> path" where
  "dirname p =
     (let h = rev (dropWhile (\<lambda>c. c \<noteq> CHR ''/'') (rev p))
      in if rstrip_slash h = [] then h else rstrip_slash h)"

text \<open>\<open>os.path.abspath\<close>, without the normalisation of dots and double slashes.\<close>

definition abspath :: "world \<Rightarrow> path \<Rightarrow> path" where
  "abspath w p = (if p \<noteq> [] \<and> hd p = CHR ''/'' then p else path_join (w_cwd w) p)"

text \<open>The directories \<open>os.makedirs(p)\<close> walks through: every prefix of \<open>p\<close> that ends
  before a slash, and \<open>p\<close> itself.\<close>

definition ancestors :: "path \<Rightarrow> path list" where
  "ancestors p = [take i p. i \<leftarrow> [1..<length p], p ! i = CHR ''/''] @ [p]"

text \<open>
  \<open>os.makedirs(p, exist_ok=True)\<close>. When one of the directories on the way is a file,
  \<open>mkdir\<close> fails for the first name \<open>os.makedirs\<close> tries below that file, and the
  exception names it: the first prefix after the file that does not end with a slash,
  or \<open>p\<close> itself when \<open>p\<close> is that prefix followed by slashes.
\<close>

definition blocked_at :: "world \<Rightarrow> path \<Rightarrow> path" where
  "blocked_at w p =
     (case [q \<leftarrow> tl (dropWhile (\<lambda>q. \<not> isfile w q) (ancestors p)). last q \<noteq> CHR ''/''] of
        [] \<Rightarrow> p
      | q # qs \<Rightarrow> if rstrip_slash p = q then p else q)"

definition makedirs :: "path \<Rightarrow> world \<Rightarrow> (exn + unit) \<times> world" where
  "makedirs p w =
     (if p = [] then (Inl (Exn ''FileNotFoundError'' (''[Errno 2] No such file or directory: '' @ sq p)), w)
      else if isfile w p then
        (Inl (Exn ''FileExistsError'' (''[Errno 17] File exists: '' @ sq p)), w)
      else if \<exists>q \<in> set (ancestors p). isfile w q then
        (Inl (Exn ''NotADirectoryError'' (''[Errno 20] Not a directory: '' @ sq (blocked_at w p))), w)
      else (Inr (), w\<lparr>w_dirs := w_dirs w @ [q \<leftarrow> ancestors p. \<not> isdir w q]\<rparr>))"

text \<open>\<open>open(p, "w")\<close>: the exception it raises, if any.\<close>

definition open_w_error :: "world \<Rightarrow> path \<Rightarrow> exn option" where
  "open_w_error w p =
     (if isdir w p then
        Some (Exn ''IsADirectoryError'' (''[Errno 21] Is a directory: '' @ sq p))
      else if rstrip_slash (dirname p) \<noteq> [] \<and> \<not> isdir w (dirname p) then
        (if \<exists>q \<in> set (ancestors (dirname p)). isfile w q then
           Some (Exn ''NotADirectoryError'' (''[Errno 20] Not a directory: '' @ sq p))
         else Some (Exn ''FileNotFoundError'' (''[Errno 2] No such file or directory: '' @ sq p)))
      else None)"

text \<open>A file opened for writing is created with mode \<open>0o666 & ~umask\<close>, or truncated
  with its mode kept.\<close>

definition put_file :: "path \<Rightarrow> fcontent \<Rightarrow> world \<Rightarrow> world" where
  "put_file p c w =
     (let m = (case map_of (w_files w) p of
                 None \<Rightarrow> 438 AND NOT (int (w_umask w))
               | Some (c', m') \<Rightarrow> int m')
      in w\<lparr>w_files := AList.update p (c, nat m) (w_files w)\<rparr>)"

text \<open>\<open>with open(p, "w") as f: json.dump(v, f)\<close>.\<close>

definition write_json :: "path \<Rightarrow> pyval \<Rightarrow> world \<Rightarrow> (exn + unit) \<times> world" where
  "write_json p v w =
     (case open_w_error w p of
        Some e \<Rightarrow> (Inl e, w)
      | None \<Rightarrow>
          if json_ok v then (Inr (), put_file p (JsonText v) w)
          else (Inl (Exn ''TypeError'' ''Object of type object is not JSON serializable''),
                put_file p PartialJson w))"

text \<open>\<open>os.chmod(p, mode)\<close>.\<close>

definition chmod :: "path \<Rightarrow> nat \<Rightarrow> world \<Rightarrow> (exn + unit) \<times> world" where
  "chmod p m w =
     (case map_of (w_files w) p of
        Some (c, m') \<Rightarrow> (Inr (), w\<lparr>w_files := AList.update p (c, m) (w_files w)\<rparr>)
      | None \<Rightarrow>
          if isdir w p then (Inr (), w)
          else (Inl (Exn ''FileNotFoundError''
                  (''[Errno 2] No such file or directory: '' @ sq p)), w))"

section \<open>Credential bootstrap\<close>

text \<open>\<open>os.path.expanduser("~/.kaggle")\<close>: the home directory without trailing slashes,
  followed by the rest of the path.\<close>

definition kaggle_dir :: "world \<Rightarrow> path" where
  "kaggle_dir w = rstrip_slash (w_home w) @ ''/.kaggle''"

definition kaggle_path :: "world \<Rightarrow> path" where
  "kaggle_path w = path_join (kaggle_dir w) ''kaggle.json''"

text \<open>\<open>init_kaggle\<close>, with \<open>os.environ\<close> as a map. \<open>0o600\<close> is 384.\<close>

definition init_kaggle :: "(string \<rightharpoonup> string) \<Rightarrow> world \<Rightarrow> (exn + unit) \<times> world" where
  "init_kaggle environ w =
     (let username = environ ''KAGGLE_USERNAME'';
          key = environ ''KAGGLE_API_KEY''
      in if \<not> truthy (opt_str username) \<or> \<not> truthy (opt_str key) then
           (Inl (Exn ''ValueError''
              ''Missing KAGGLE_USERNAME or KAGGLE_KEY environment variables''), w)
         else
           let creds = PDict [(''username'', opt_str username), (''key'', opt_str key)]
           in case makedirs (kaggle_dir w) w of
                (Inl e, w1) \<Rightarrow> (Inl e, w1)
              | (Inr u1, w1) \<Rightarrow>
                  (case write_json (kaggle_path w) creds w1 of
                     (Inl e, w2) \<Rightarrow> (Inl e, w2)
                   | (Inr u2, w2) \<Rightarrow> chmod (kaggle_path w) 384 w2))"

text \<open>The permission bits of a mode allow the owner to read and write, and nobody
  anything else: \<open>mode & 0o777 == 0o600\<close>.\<close>

definition owner_rw_only :: "nat \<Rightarrow> bool" where
  "owner_rw_only m = (int m AND 511 = 384)"

text \<open>The file system lets the bootstrap through: nothing on the way to
  \<open>~/.kaggle\<close> is a regular file, and \<open>kaggle.json\<close> there is not a directory.\<close>

definition bootstrap_io_ok :: "world \<Rightarrow> bool" where
  "bootstrap_io_ok w =
     ((\<forall>q \<in> set (ancestors (kaggle_dir w)). \<not> isfile w q) \<and> \<not> isdir w (kaggle_path w))"

section \<open>What the adapters do with a response\<close>

text \<open>Sequencing of steps that may raise: the first exception ends the \<open>try\<close> block.\<close>

definition bind_exn :: "exn + 'a \<Rightarrow> ('a \<Rightarrow> exn + 'b) \<Rightarrow> exn + 'b" where
  "bind_exn x f = (case x of Inl e \<Rightarrow> Inl e | Inr a \<Rightarrow> f a)"

fun map_exn :: "('a \<Rightarrow> exn + 'b) \<Rightarrow> 'a list \<Rightarrow> exn + 'b list" where
  "map_exn f [] = Inr []"
| "map_exn f (x # xs) =
     (case f x of
        Inl e \<Rightarrow> Inl e
      | Inr y \<Rightarrow> (case map_exn f xs of Inl e \<Rightarrow> Inl e | Inr ys \<Rightarrow> Inr (y # ys)))"

definition attr_error :: "pyval \<Rightarrow> string \<Rightarrow> exn" where
  "attr_error x n =
     Exn ''AttributeError'' (sq (type_name x) @ '' object has no attribute '' @ sq n)"

text \<open>\<open>x.n\<close>\<close>

fun getattr :: "pyval \<Rightarrow> string \<Rightarrow> exn + pyval" where
  "getattr (PObj t a v) n =
     (case map_of a n of Some y \<Rightarrow> Inr y | None \<Rightarrow> Inl (attr_error (PObj t a v) n))"
| "getattr x n = Inl (attr_error x n)"

text \<open>\<open>getattr(x, n, d)\<close>\<close>

fun getattr_default :: "pyval \<Rightarrow> string \<Rightarrow> pyval \<Rightarrow> pyval" where
  "getattr_default (PObj t a v) n d = (case map_of a n of Some y \<Rightarrow> y | None \<Rightarrow> d)"
| "getattr_default x n d = d"

text \<open>\<open>len(x)\<close>\<close>

fun py_len :: "pyval \<Rightarrow> exn + nat" where
  "py_len (PStr s) = Inr (length s)"
| "py_len (PList xs) = Inr (length xs)"
| "py_len (PDict d) = Inr (length d)"
| "py_len x = Inl (Exn ''TypeError'' (''object of type '' @ sq (type_name x) @ '' has no len()''))"

text \<open>\<open>for y in x\<close>: the elements of a list, the characters of a string, the keys of a
  dict.\<close>

fun py_iter :: "pyval \<Rightarrow> exn + pyval list" where
  "py_iter (PList xs) = Inr xs"
| "py_iter (PStr s) = Inr (map (\<lambda>c. PStr [c]) s)"
| "py_iter (PDict d) = Inr (map (\<lambda>kv. PStr (fst kv)) d)"
| "py_iter x = Inl (Exn ''TypeError'' (sq (type_name x) @ '' object is not iterable''))"

text \<open>\<open>x.to_dict() if hasattr(x, "to_dict") else x.__dict__\<close>\<close>

fun to_dict_or_vars :: "pyval \<Rightarrow> exn + pydict" where
  "to_dict_or_vars (PObj (Some d) a v) = Inr d"
| "to_dict_or_vars (PObj None a v) = Inr v"
| "to_dict_or_vars x = Inl (attr_error x ''__dict__'')"

text \<open>\<open>x.to_dict() if hasattr(x, "to_dict") else dict(x) if isinstance(x, dict) else
  x.__dict__\<close>\<close>

fun as_dict :: "pyval \<Rightarrow> exn + pydict" where
  "as_dict (PObj (Some d) a v) = Inr d"
| "as_dict (PDict d) = Inr d"
| "as_dict (PObj None a v) = Inr v"
| "as_dict x = Inl (attr_error x ''__dict__'')"

text \<open>The same with \<open>getattr(x, "__dict__", {})\<close> as the last resort.\<close>

fun as_dict_or_empty :: "pyval \<Rightarrow> pydict" where
  "as_dict_or_empty (PObj (Some d) a v) = d"
| "as_dict_or_empty (PDict d) = d"
| "as_dict_or_empty (PObj None a v) = v"
| "as_dict_or_empty x = []"

text \<open>\<open>d.get(k)\<close> and \<open>d.get(k, default)\<close>\<close>

definition dict_get :: "pydict \<Rightarrow> string \<Rightarrow> pyval" where
  "dict_get d k = (case map_of d k of None \<Rightarrow> PNone | Some v \<Rightarrow> v)"

definition dict_get_default :: "pydict \<Rightarrow> string \<Rightarrow> pyval \<Rightarrow> pyval" where
  "dict_get_default d k x = (case map_of d k of None \<Rightarrow> x | Some v \<Rightarrow> v)"

text \<open>\<open>{**base, **d}\<close>: the keys of \<open>base\<close> keep their place and take the value
  \<open>d\<close> gives them, if any; the other keys of \<open>d\<close> follow.\<close>

definition dict_spread :: "pydict \<Rightarrow> pydict \<Rightarrow> pydict" where
  "dict_spread base d =
     map (\<lambda>kv. (fst kv, dict_get_default d (fst kv) (snd kv))) base
     @ [kv \<leftarrow> d. fst kv \<notin> set (map fst base)]"

text \<open>\<open>os.path.join(path, x)\<close> where \<open>x\<close> came from the delegate.\<close>

fun join_val :: "path \<Rightarrow> pyval \<Rightarrow> exn + path" where
  "join_val p (PStr s) = Inr (path_join p s)"
| "join_val p x =
     Inl (Exn ''TypeError''
       (''join() argument must be str, bytes, or os.PathLike object, not '' @ sq (type_name x)))"

text \<open>\<open>path or os.getcwd()\<close>\<close>

definition or_cwd :: "world \<Rightarrow> string option \<Rightarrow> path" where
  "or_cwd w path = (case path of None \<Rightarrow> w_cwd w | Some p \<Rightarrow> if p = [] then w_cwd w else p)"

text \<open>\<open>re.match(r'^[^/]+/[^/]+$', k)\<close>: some characters other than a slash, one slash,
  some characters other than a slash, and the end.\<close>

definition re_match_kernel :: "string \<Rightarrow> bool" where
  "re_match_kernel k =
     (let a = takeWhile (\<lambda>c. c \<noteq> CHR ''/'') k;
          b = dropWhile (\<lambda>c. c \<noteq> CHR ''/'') k
      in a \<noteq> [] \<and> b \<noteq> [] \<and> tl b \<noteq> [] \<and> CHR ''/'' \<notin> set (tl b))"

section \<open>Calling the delegate\<close>

text \<open>
  The Kaggle client is outside the repository. It is a parameter of every adapter: a
  function that, for a call and the world at that moment, raises or returns a value and
  may change the file system (downloads do). Every call is appended to the log with the
  way it was dispatched.
\<close>

type_synonym delegate = "api_call \<Rightarrow> world \<Rightarrow> (exn + pyval) \<times> world"

definition call_api :: "delegate \<Rightarrow> dispatch \<Rightarrow> api_call \<Rightarrow> world \<Rightarrow> (exn + pyval) \<times> world" where
  "call_api api d c w =
     (case api c w of (r, w') \<Rightarrow> (r, w'\<lparr>w_log := w_log w @ [(d, c)]\<rparr>))"

text \<open>
  \<open>try: r = <delegate call>; <body> except Exception as e: return <handler>\<close>. The body
  receives the response and the world after the call, and may raise.
\<close>

definition try_call ::
  "delegate \<Rightarrow> dispatch \<Rightarrow> api_call \<Rightarrow> (exn \<Rightarrow> pydict) \<Rightarrow>
   (pyval \<Rightarrow> world \<Rightarrow> (exn + pydict) \<times> world) \<Rightarrow> world \<Rightarrow> pydict \<times> world" where
  "try_call api d c handler body w =
     (case call_api api d c w of
        (Inl e, w1) \<Rightarrow> (handler e, w1)
      | (Inr r, w1) \<Rightarrow>
          (case body r w1 of
             (Inl e, w2) \<Rightarrow> (handler e, w2)
           | (Inr env, w2) \<Rightarrow> (env, w2)))"

text \<open>The same with a file system operation as the first statement of the \<open>try\<close>
  block: \<open>os.makedirs(p, exist_ok=True)\<close>, or
  \<open>if not os.path.isdir(p): os.makedirs(p, exist_ok=True)\<close>.\<close>

definition makedirs_unless_dir :: "path \<Rightarrow> world \<Rightarrow> (exn + unit) \<times> world" where
  "makedirs_unless_dir p w = (if \<not> isdir w p then makedirs p w else (Inr (), w))"

definition try_io_call ::
  "(world \<Rightarrow> (exn + unit) \<times> world) \<Rightarrow> delegate \<Rightarrow> dispatch \<Rightarrow> api_call \<Rightarrow> (exn \<Rightarrow> pydict) \<Rightarrow>
   (pyval \<Rightarrow> world \<Rightarrow> (exn + pydict) \<times> world) \<Rightarrow> world \<Rightarrow> pydict \<times> world" where
  "try_io_call io api d c handler body w =
     (case io w of
        (Inl e, w1) \<Rightarrow> (handler e, w1)
      | (Inr u, w1) \<Rightarrow> try_call api d c handler body w1)"

text \<open>A body that only computes.\<close>

definition pure_body :: "(pyval \<Rightarrow> exn + pydict) \<Rightarrow> pyval \<Rightarrow> world \<Rightarrow> (exn + pydict) \<times> world" where
  "pure_body f r w = (f r, w)"

text \<open>\<open>{"status": "error", "message": str(e)}\<close>\<close>

definition error_envelope :: "string \<Rightarrow> pydict" where
  "error_envelope m = [(''status'', PStr ''error''), (''message'', PStr m)]"

definition plain_handler :: "exn \<Rightarrow> pydict" where
  "plain_handler e = error_envelope (exn_str e)"


section \<open>The adapters: competitions\<close>

definition competitions_list :: "delegate \<Rightarrow> int \<Rightarrow> string option \<Rightarrow> world \<Rightarrow> pydict \<times> world" where
  "competitions_list api page search w =
     try_call api Executor
       (Api ''competitions_list'' [] [(''page'', PInt page), (''search'', opt_str search)])
       plain_handler
       (pure_body (\<lambda>comps.
          bind_exn (py_len comps) (\<lambda>n.
          bind_exn (py_iter comps) (\<lambda>cs.
          bind_exn (map_exn (\<lambda>c. getattr c ''ref'') cs) (\<lambda>refs.
          Inr [(''status'', PStr ''success''),
               (''message'', PStr (''Retrieved '' @ str_nat n @ '' competitions.'')),
               (''competitions'', PList refs)])))))
       w"

definition competition_list_files ::
  "delegate \<Rightarrow> string \<Rightarrow> string option \<Rightarrow> int \<Rightarrow> world \<Rightarrow> pydict \<times> world" where
  "competition_list_files api competition page_token page_size w =
     try_call api Executor
       (Api ''competition_list_files'' [PStr competition]
          [(''page_token'', opt_str page_token), (''page_size'', PInt page_size)])
       plain_handler
       (pure_body (\<lambda>result.
          bind_exn (getattr result ''files'') (\<lambda>files.
          bind_exn (py_len files) (\<lambda>n.
          bind_exn (py_iter files) (\<lambda>fs.
          Inr [(''status'', PStr ''success''),
               (''message'', PStr (''Retrieved '' @ str_nat n @ '' files for '' @ sq competition @ ''.'')),
               (''files'', PList fs)])))))
       w"

definition competition_download_file ::
  "delegate \<Rightarrow> string \<Rightarrow> string \<Rightarrow> string option \<Rightarrow> bool \<Rightarrow> bool \<Rightarrow> world \<Rightarrow> pydict \<times> world" where
  "competition_download_file api competition file_name path force quiet w =
     (let save_path = or_cwd w path
      in try_call api Executor
           (Api ''competition_download_file'' [PStr competition, PStr file_name]
              [(''path'', PStr save_path), (''force'', PBool force), (''quiet'', PBool quiet)])
           plain_handler
           (\<lambda>r w1. (Inr [(''status'', PStr ''success''),
                     (''message'', PStr (''File '' @ sq file_name @ '' from '' @ sq competition
                                          @ '' downloaded successfully.'')),
                     (''competition'', PStr competition),
                     (''file_name'', PStr file_name),
                     (''saved_path'', PStr (abspath w1 save_path))], w1))
           w)"

definition competition_download_files ::
  "delegate \<Rightarrow> string \<Rightarrow> string option \<Rightarrow> bool \<Rightarrow> bool \<Rightarrow> world \<Rightarrow> pydict \<times> world" where
  "competition_download_files api competition path force quiet w =
     (let save_path = or_cwd w path
      in try_call api Executor
           (Api ''competition_download_files'' [PStr competition]
              [(''path'', PStr save_path), (''force'', PBool force), (''quiet'', PBool quiet)])
           plain_handler
           (\<lambda>r w1. (Inr [(''status'', PStr ''success''),
                     (''message'', PStr (''Downloaded all files for competition '' @ sq competition @ ''.'')),
                     (''competition'', PStr competition),
                     (''saved_path'', PStr (abspath w1 save_path))], w1))
           w)"

definition competition_submit ::
  "delegate \<Rightarrow> string \<Rightarrow> string \<Rightarrow> string \<Rightarrow> bool \<Rightarrow> world \<Rightarrow> pydict \<times> world" where
  "competition_submit api file_name message competition quiet w =
     try_call api Executor
       (Api ''competition_submit'' [PStr file_name, PStr message, PStr competition]
          [(''quiet'', PBool quiet)])
       plain_handler
       (pure_body (\<lambda>response.
          bind_exn (to_dict_or_vars response) (\<lambda>response_dict.
          Inr [(''status'', PStr ''success''),
               (''message'', dict_get response_dict ''message''),
               (''competition'', PStr competition),
               (''submission_ref'', dict_get response_dict ''ref'')])))
       w"

definition competition_submissions ::
  "delegate \<Rightarrow> string \<Rightarrow> string option \<Rightarrow> string option \<Rightarrow> int \<Rightarrow> int \<Rightarrow> world \<Rightarrow> pydict \<times> world" where
  "competition_submissions api competition group' sort' page_token page_size w =
     try_call api Executor
       (Api ''competition_submissions''
          [PStr competition, opt_str group', opt_str sort', PInt page_token, PInt page_size] [])
       plain_handler
       (pure_body (\<lambda>submissions.
          bind_exn (py_len submissions) (\<lambda>n.
          bind_exn (py_iter submissions) (\<lambda>ss.
          bind_exn (map_exn to_dict_or_vars ss) (\<lambda>ds.
          Inr [(''status'', PStr ''success''),
               (''message'', PStr (''Retrieved '' @ str_nat n @ '' submissions.'')),
               (''competition'', PStr competition),
               (''data'', PList (map PDict ds))])))))
       w"

definition competition_leaderboard_view :: "delegate \<Rightarrow> string \<Rightarrow> world \<Rightarrow> pydict \<times> world" where
  "competition_leaderboard_view api competition w =
     try_call api Executor
       (Api ''competition_leaderboard_view'' [PStr competition] [])
       plain_handler
       (pure_body (\<lambda>leaderboard.
          bind_exn (py_len leaderboard) (\<lambda>n.
          bind_exn (py_iter leaderboard) (\<lambda>es.
          bind_exn (map_exn to_dict_or_vars es) (\<lambda>ds.
          Inr [(''status'', PStr ''success''),
               (''message'', PStr (''Retrieved '' @ str_nat n @ '' leaderboard entries.'')),
               (''competition'', PStr competition),
               (''data'', PList (map PDict ds))])))))
       w"

definition competition_leaderboard_download ::
  "delegate \<Rightarrow> string \<Rightarrow> string \<Rightarrow> bool \<Rightarrow> world \<Rightarrow> pydict \<times> world" where
  "competition_leaderboard_download api competition path quiet w =
     try_call api Executor
       (Api ''competition_leaderboard_download'' [PStr competition, PStr path]
          [(''quiet'', PBool quiet)])
       plain_handler
       (\<lambda>r w1. (Inr [(''status'', PStr ''success''),
                 (''message'', PStr (''Downloaded leaderboard for competition: '' @ competition
                                      @ '' to path: '' @ or_cwd w1 (Some path))),
                 (''competition'', PStr competition)], w1))
       w"

section \<open>The adapters: datasets\<close>

definition datasets_list ::
  "delegate \<Rightarrow> pyval \<Rightarrow> pyval \<Rightarrow> pyval \<Rightarrow> pyval \<Rightarrow> pyval \<Rightarrow> pyval \<Rightarrow> pyval \<Rightarrow> pyval \<Rightarrow> pyval
     \<Rightarrow> pyval \<Rightarrow> pyval \<Rightarrow> world \<Rightarrow> pydict \<times> world" where
  "datasets_list api sort_by size' file_type license_name tag_ids search user mine page
       max_size min_size w =
     try_call api Executor
       (Api ''dataset_list'' []
          [(''sort_by'', sort_by), (''size'', size'), (''file_type'', file_type),
           (''license_name'', license_name), (''tag_ids'', tag_ids), (''search'', search),
           (''user'', user), (''mine'', mine), (''page'', page), (''max_size'', max_size),
           (''min_size'', min_size)])
       plain_handler
       (pure_body (\<lambda>datasets.
          bind_exn (py_len datasets) (\<lambda>n.
          Inr [(''status'', PStr ''success''),
               (''message'', PStr (''Retrieved '' @ str_nat n @ '' datasets.'')),
               (''datasets'', datasets)])))
       w"

definition dataset_metadata :: "delegate \<Rightarrow> string \<Rightarrow> string option \<Rightarrow> world \<Rightarrow> pydict \<times> world" where
  "dataset_metadata api dataset path w =
     try_call api Executor
       (Api ''dataset_metadata'' [PStr dataset] [(''path'', opt_str path)])
       plain_handler
       (\<lambda>r w1. (Inr [(''status'', PStr ''success''),
                 (''message'', PStr (''Downloaded metadata for dataset: '' @ dataset
                                      @ '' to path: '' @ or_cwd w1 path))], w1))
       w"

definition dataset_list_files ::
  "delegate \<Rightarrow> string \<Rightarrow> string option \<Rightarrow> int \<Rightarrow> world \<Rightarrow> pydict \<times> world" where
  "dataset_list_files api dataset page_token page_size w =
     try_call api Executor
       (Api ''dataset_list_files'' [PStr dataset]
          [(''page_token'', opt_str page_token), (''page_size'', PInt page_size)])
       plain_handler
       (pure_body (\<lambda>response.
          bind_exn (getattr response ''files'') (\<lambda>files.
          bind_exn (py_len files) (\<lambda>n.
          bind_exn (py_iter files) (\<lambda>fs.
          Inr [(''status'', PStr ''success''),
               (''message'', PStr (''Retrieved '' @ str_nat n @ '' files for dataset: '' @ dataset)),
               (''files'', PList fs)])))))
       w"

definition dataset_status :: "delegate \<Rightarrow> string \<Rightarrow> world \<Rightarrow> pydict \<times> world" where
  "dataset_status api dataset w =
     try_call api Executor
       (Api ''dataset_status'' [PStr dataset] [])
       plain_handler
       (pure_body (\<lambda>response.
          Inr [(''status'', PStr ''success''),
               (''message'', PStr (''Retrieved status for dataset: '' @ dataset)),
               (''dataset_status'', response)]))
       w"

definition dataset_download_file ::
  "delegate \<Rightarrow> string \<Rightarrow> string \<Rightarrow> string option \<Rightarrow> pyval \<Rightarrow> pyval \<Rightarrow> pyval \<Rightarrow> world
     \<Rightarrow> pydict \<times> world" where
  "dataset_download_file api dataset file_name path force quiet licenses w =
     try_call api Executor
       (Api ''dataset_download_file'' [PStr dataset, PStr file_name]
          [(''path'', opt_str path), (''force'', force), (''quiet'', quiet),
           (''licenses'', licenses)])
       plain_handler
       (\<lambda>r w1. (Inr [(''status'', PStr ''success''),
                 (''message'', PStr (''Downloaded '' @ file_name @ '' from dataset: '' @ dataset
                                      @ '' to path: '' @ or_cwd w1 path))], w1))
       w"

text \<open>\<open>dataset_download_files\<close> is an \<open>async def\<close> that calls the client in its own
  body, without \<open>run_in_executor\<close>.\<close>

definition dataset_download_files ::
  "delegate \<Rightarrow> string \<Rightarrow> string option \<Rightarrow> bool \<Rightarrow> bool \<Rightarrow> pyval \<Rightarrow> world \<Rightarrow> pydict \<times> world" where
  "dataset_download_files api dataset path force quiet licenses w =
     try_call api Direct
       (Api ''dataset_download_files'' [PStr dataset]
          [(''path'', opt_str path), (''force'', PBool force), (''quiet'', PBool quiet),
           (''licenses'', licenses)])
       plain_handler
       (\<lambda>r w1. (Inr [(''status'', PStr ''success''),
                 (''message'', PStr (''Downloaded dataset: '' @ dataset
                                      @ '' to path: '' @ or_cwd w1 path))], w1))
       w"

text \<open>The soft failure test of the dataset adapters:
  \<open>response_dict.get("error", "") == ""\<close> decides for success.\<close>

definition dataset_result :: "string \<Rightarrow> pydict \<Rightarrow> pydict" where
  "dataset_result success_message response_dict =
     (if dict_get_default response_dict ''error'' (PStr []) = PStr [] then
        (let response_dict' = AList.update ''message'' (PStr success_message) response_dict
         in [(''status'', PStr ''success''),
             (''message'', dict_get response_dict' ''message''),
             (''data'', PDict response_dict')])
      else
        [(''status'', PStr ''error''),
         (''message'', dict_get_default response_dict ''error'' (PStr ''Unknown error occurred.'')),
         (''data'', PDict response_dict)])"

definition dataset_create ::
  "delegate \<Rightarrow> string \<Rightarrow> bool \<Rightarrow> bool \<Rightarrow> bool \<Rightarrow> string \<Rightarrow> world \<Rightarrow> pydict \<times> world" where
  "dataset_create api folder public quiet convert_to_csv dir_mode w =
     (if folder = [] \<or> \<not> isdir w folder then
        (error_envelope (''Folder does not exist: '' @ folder), w)
      else
        try_call api Direct
          (Api ''dataset_create_new'' [PStr folder]
             [(''public'', PBool public), (''quiet'', PBool quiet),
              (''convert_to_csv'', PBool convert_to_csv), (''dir_mode'', PStr dir_mode)])
          plain_handler
          (pure_body (\<lambda>response.
             bind_exn (to_dict_or_vars response) (\<lambda>response_dict.
             Inr (dataset_result (''Dataset created successfully from folder: '' @ folder)
                    response_dict))))
          w)"

definition dataset_initialize :: "delegate \<Rightarrow> string \<Rightarrow> world \<Rightarrow> pydict \<times> world" where
  "dataset_initialize api folder w =
     (if folder = [] \<or> \<not> isdir w folder then
        (error_envelope (''Folder does not exist: '' @ folder), w)
      else
        try_call api Direct
          (Api ''dataset_initialize'' [PStr folder] [])
          plain_handler
          (pure_body (\<lambda>r.
             Inr [(''status'', PStr ''success''),
                  (''message'', PStr (''Initialized dataset in folder: '' @ folder))]))
          w)"

definition dataset_create_version ::
  "delegate \<Rightarrow> string \<Rightarrow> string \<Rightarrow> bool \<Rightarrow> bool \<Rightarrow> bool \<Rightarrow> string \<Rightarrow> world \<Rightarrow> pydict \<times> world" where
  "dataset_create_version api folder version_notes quiet convert_to_csv delete_old_versions
       dir_mode w =
     (if folder = [] \<or> \<not> isdir w folder then
        (error_envelope (''Folder does not exist: '' @ folder), w)
      else
        try_call api Direct
          (Api ''dataset_create_version'' [PStr folder, PStr version_notes]
             [(''quiet'', PBool quiet), (''convert_to_csv'', PBool convert_to_csv),
              (''delete_old_versions'', PBool delete_old_versions),
              (''dir_mode'', PStr dir_mode)])
          plain_handler
          (pure_body (\<lambda>response.
             bind_exn (to_dict_or_vars response) (\<lambda>response_dict.
             Inr (dataset_result
                    (''New version created successfully for dataset in folder: '' @ folder)
                    response_dict))))
          w)"


section \<open>The adapters: kernels\<close>

definition kernels_list ::
  "delegate \<Rightarrow> int \<Rightarrow> int \<Rightarrow> string option \<Rightarrow> string option \<Rightarrow> string option \<Rightarrow> string option
     \<Rightarrow> bool \<Rightarrow> string option \<Rightarrow> string option \<Rightarrow> string option \<Rightarrow> string option
     \<Rightarrow> world \<Rightarrow> pydict \<times> world" where
  "kernels_list api page_size page search competition dataset user mine sort_by language
       kernel_type output_type w =
     try_call api Executor
       (Api ''kernels_list'' []
          [(''page_size'', PInt page_size), (''page'', PInt page), (''search'', opt_str search),
           (''competition'', opt_str competition), (''dataset'', opt_str dataset),
           (''user'', opt_str user), (''mine'', PBool mine), (''sort_by'', opt_str sort_by),
           (''language'', opt_str language), (''kernel_type'', opt_str kernel_type),
           (''output_type'', opt_str output_type)])
       (\<lambda>e. [(''status'', PStr ''error''),
             (''message'', PStr (''Failed to list kernels: '' @ exn_str e)),
             (''data'', PList [])])
       (pure_body (\<lambda>kernels.
          bind_exn (py_iter kernels) (\<lambda>ks.
          bind_exn (map_exn to_dict_or_vars ks) (\<lambda>kernels_data.
          Inr [(''status'', PStr ''success''),
               (''message'', PStr (''Retrieved '' @ str_nat (length kernels_data) @ '' kernels.'')),
               (''data'', PList (map PDict kernels_data))]))))
       w"

definition kernel_list_files ::
  "delegate \<Rightarrow> string \<Rightarrow> string option \<Rightarrow> int \<Rightarrow> world \<Rightarrow> pydict \<times> world" where
  "kernel_list_files api kernel' page_token page_size w =
     (if kernel' = [] \<or> \<not> re_match_kernel kernel' then
        ([(''status'', PStr ''error''),
          (''message'', PStr (''Invalid kernel format: '' @ kernel')),
          (''data'', PList [])], w)
      else
        try_call api Executor
          (Api ''kernels_list_files'' [PStr kernel']
             [(''page_token'', opt_str page_token), (''page_size'', PInt page_size)])
          (\<lambda>e. [(''status'', PStr ''error''),
                (''message'', PStr (''Failed to list files for kernel '' @ kernel' @ '': '' @ exn_str e)),
                (''data'', PList [])])
          (pure_body (\<lambda>files_response.
             bind_exn (py_iter (getattr_default files_response ''files'' (PList []))) (\<lambda>fs.
             bind_exn (map_exn to_dict_or_vars fs) (\<lambda>files_data.
             Inr [(''status'', PStr ''success''),
                  (''message'', PStr (''Retrieved '' @ str_nat (length files_data)
                                       @ '' files from kernel: '' @ kernel')),
                  (''data'', files_response)]))))
          w)"

definition kernel_initialize :: "delegate \<Rightarrow> string \<Rightarrow> world \<Rightarrow> pydict \<times> world" where
  "kernel_initialize api folder w =
     (if folder = [] \<or> \<not> isdir w folder then
        ([(''status'', PStr ''error''),
          (''message'', PStr (''Folder does not exist: '' @ folder)),
          (''data'', PDict [])], w)
      else
        try_call api Executor
          (Api ''kernels_initialize'' [PStr folder] [])
          (\<lambda>e. [(''status'', PStr ''error''),
                (''message'', PStr (''Failed to initialize kernel metadata: '' @ exn_str e)),
                (''data'', PDict [])])
          (pure_body (\<lambda>r.
             Inr [(''status'', PStr ''success''),
                  (''message'', PStr (''Initialized kernel metadata in folder: '' @ folder)),
                  (''data'', PDict [])]))
          w)"

text \<open>
  \<open>kernel_push\<close> spreads the response into the envelope (\<open>**response_dict\<close>): the keys
  of the response come after \<open>status\<close> and \<open>message\<close> and replace them when they have
  the same name.
\<close>

definition kernel_push :: "delegate \<Rightarrow> string \<Rightarrow> int option \<Rightarrow> world \<Rightarrow> pydict \<times> world" where
  "kernel_push api folder timeout w =
     (if folder = [] \<or> \<not> isdir w folder then
        (error_envelope (''Folder path does not exist: '' @ folder), w)
      else if \<not> exists w (path_join folder ''kernel-metadata.json'') then
        (error_envelope (''kernel-metadata.json not found in '' @ folder), w)
      else
        try_call api Executor
          (Api ''kernels_push'' [PStr folder] [(''timeout'', opt_int timeout)])
          (\<lambda>e. error_envelope (''Failed to push kernel: '' @ exn_str e))
          (pure_body (\<lambda>response.
             bind_exn (as_dict response) (\<lambda>response_dict.
             if truthy (dict_get response_dict ''error'') then
               Inr (dict_spread
                      [(''status'', PStr ''error''), (''message'', dict_get response_dict ''error'')]
                      response_dict)
             else if list_ex (\<lambda>kv. take 7 (fst kv) = ''invalid'' \<and> truthy (snd kv)) response_dict then
               Inr (dict_spread
                      [(''status'', PStr ''error''), (''message'', PStr ''Validation errors occurred'')]
                      response_dict)
             else Inr (dict_spread [(''status'', PStr ''success'')] response_dict))))
          w)"

definition kernel_pull ::
  "delegate \<Rightarrow> string \<Rightarrow> string \<Rightarrow> bool \<Rightarrow> bool \<Rightarrow> world \<Rightarrow> pydict \<times> world" where
  "kernel_pull api kernel' path metadata quiet w =
     (if kernel' = [] \<or> CHR ''/'' \<notin> set kernel' then
        ([(''status'', PStr ''error''),
          (''message'', PStr (''Kernel must be specified in the form '' @ sq ''username/kernel-slug'' @ ''.'')),
          (''kernel'', PStr kernel')], w)
      else
        try_io_call (makedirs_unless_dir path) api Executor
          (Api ''kernels_pull'' [PStr kernel', PStr path]
             [(''metadata'', PBool metadata), (''quiet'', PBool quiet)])
          (\<lambda>e. [(''status'', PStr ''error''),
                (''message'', PStr (''Unexpected error while downloading kernel '' @ sq kernel'
                                     @ '': '' @ exn_str e)),
                (''kernel'', PStr kernel')])
          (\<lambda>pulled_file w1.
             case join_val path pulled_file of
               Inl e \<Rightarrow> (Inl e, w1)
             | Inr joined \<Rightarrow>
                 (let abs_path = abspath w1 joined
                  in if \<not> exists w1 abs_path then
                       (Inr [(''status'', PStr ''error''),
                             (''message'', PStr (''Kernel pulled but expected file not found at ''
                                                  @ abs_path @ ''.'')),
                             (''kernel'', PStr kernel')], w1)
                     else
                       (Inr [(''status'', PStr ''success''),
                             (''message'', PStr (''Kernel '' @ sq kernel' @ '' downloaded successfully.'')),
                             (''kernel'', PStr kernel'),
                             (''saved_path'', PStr abs_path)], w1)))
          w)"

definition kernel_output ::
  "delegate \<Rightarrow> string \<Rightarrow> string \<Rightarrow> bool \<Rightarrow> bool \<Rightarrow> world \<Rightarrow> pydict \<times> world" where
  "kernel_output api kernel' path force quiet w =
     (if kernel' = [] \<or> CHR ''/'' \<notin> set kernel' then
        ([(''status'', PStr ''error''),
          (''message'', PStr (''Kernel must be specified in the form '' @ sq ''username/kernel-slug'' @ ''.'')),
          (''kernel'', PStr kernel')], w)
      else
        try_io_call (makedirs_unless_dir path) api Executor
          (Api ''kernels_output'' [PStr kernel', PStr path]
             [(''force'', PBool force), (''quiet'', PBool quiet)])
          (\<lambda>e. [(''status'', PStr ''error''),
                (''message'', PStr (''Failed to download output for kernel '' @ sq kernel'
                                     @ '': '' @ exn_str e)),
                (''kernel'', PStr kernel')])
          (\<lambda>saved_path w1.
             (let abs_path = abspath w1 path
              in (Inr [(''status'', PStr ''success''),
                       (''message'', PStr (''Downloaded output for kernel '' @ sq kernel'
                                            @ '' to path: '' @ abs_path)),
                       (''kernel'', PStr kernel'),
                       (''saved_path'', PStr abs_path)], w1)))
          w)"

definition kernel_status :: "delegate \<Rightarrow> string \<Rightarrow> world \<Rightarrow> pydict \<times> world" where
  "kernel_status api kernel' w =
     (if kernel' = [] \<or> CHR ''/'' \<notin> set kernel' then
        ([(''status'', PStr ''error''),
          (''message'', PStr (''Kernel must be specified in the form '' @ sq ''username/kernel-slug'' @ ''.'')),
          (''kernel'', PStr kernel'),
          (''data'', PDict [])], w)
      else
        try_call api Executor
          (Api ''kernels_status'' [PStr kernel'] [])
          (\<lambda>e. [(''status'', PStr ''error''),
                (''message'', PStr (''Failed to retrieve kernel status for '' @ sq kernel'
                                     @ '': '' @ exn_str e)),
                (''kernel'', PStr kernel'),
                (''data'', PDict [])])
          (pure_body (\<lambda>status_response.
             Inr [(''status'', PStr ''success''),
                  (''message'', PStr (''Retrieved status for kernel '' @ sq kernel' @ ''.'')),
                  (''kernel'', PStr kernel'),
                  (''data'', PDict (as_dict_or_empty status_response))]))
          w)"


section \<open>The adapters: models\<close>

definition models_list ::
  "delegate \<Rightarrow> string option \<Rightarrow> string option \<Rightarrow> string option \<Rightarrow> int \<Rightarrow> string option
     \<Rightarrow> world \<Rightarrow> pydict \<times> world" where
  "models_list api sort_by search owner page_size page_token w =
     try_call api Executor
       (Api ''model_list'' []
          [(''sort_by'', opt_str sort_by), (''search'', opt_str search), (''owner'', opt_str owner),
           (''page_size'', PInt page_size), (''page_token'', opt_str page_token)])
       (\<lambda>e. [(''status'', PStr ''error''),
             (''message'', PStr (''Failed to list models: '' @ exn_str e)),
             (''data'', PList [])])
       (pure_body (\<lambda>models_response.
          bind_exn (py_iter models_response) (\<lambda>ms.
          bind_exn (map_exn to_dict_or_vars ms) (\<lambda>models_data.
          Inr [(''status'', PStr ''success''),
               (''message'', PStr (''Retrieved '' @ str_nat (length models_data) @ '' models.'')),
               (''data'', PList (map PDict models_data))]))))
       w"

text \<open>
  \<open>model_get\<close> and \<open>model_instance_get\<close> have the same body: create the directory,
  call the client, turn the response into a dict, dump it as JSON into a file of the
  directory, and report the absolute path of the file.
\<close>

definition save_metadata ::
  "path \<Rightarrow> string \<Rightarrow> (pydict \<Rightarrow> path \<Rightarrow> pydict) \<Rightarrow> pyval \<Rightarrow> world \<Rightarrow> (exn + pydict) \<times> world" where
  "save_metadata path file_name envelope response w1 =
     (case to_dict_or_vars response of
        Inl e \<Rightarrow> (Inl e, w1)
      | Inr response_dict \<Rightarrow>
          (let file_path = path_join path file_name
           in case write_json file_path (PDict response_dict) w1 of
                (Inl e, w2) \<Rightarrow> (Inl e, w2)
              | (Inr u, w2) \<Rightarrow> (Inr (envelope response_dict (abspath w2 file_path)), w2)))"

definition model_get :: "delegate \<Rightarrow> string \<Rightarrow> string option \<Rightarrow> world \<Rightarrow> pydict \<times> world" where
  "model_get api model path w =
     (if model = [] \<or> CHR ''/'' \<notin> set model then
        ([(''status'', PStr ''error''),
          (''message'', PStr (''Model must be specified in the form '' @ sq ''owner/model-slug'' @ ''.'')),
          (''model'', PStr model),
          (''data'', PDict []),
          (''file_path'', PStr [])], w)
      else
        (let path = (case path of None \<Rightarrow> w_cwd w | Some p \<Rightarrow> p)
         in try_io_call (makedirs path) api Executor
              (Api ''model_get'' [PStr model] [])
              (\<lambda>e. [(''status'', PStr ''error''),
                    (''message'', PStr (''Failed to retrieve model '' @ sq model @ '': '' @ exn_str e)),
                    (''model'', PStr model),
                    (''data'', PDict []),
                    (''file_path'', PStr [])])
              (save_metadata path ''model-metadata.json''
                 (\<lambda>response_dict file_path.
                    [(''status'', PStr ''success''),
                     (''message'', PStr (''Model '' @ sq model
                                          @ '' metadata retrieved and saved successfully.'')),
                     (''model'', PStr model),
                     (''data'', PDict response_dict),
                     (''file_path'', PStr file_path)]))
              w))"

definition model_initialize :: "delegate \<Rightarrow> string \<Rightarrow> world \<Rightarrow> pydict \<times> world" where
  "model_initialize api folder w =
     try_io_call (makedirs folder) api Executor
       (Api ''model_initialize'' [PStr folder] [])
       (\<lambda>e. [(''status'', PStr ''error''),
             (''message'', PStr (''Failed to initialize model metadata: '' @ exn_str e)),
             (''data'', PDict [])])
       (pure_body (\<lambda>r.
          Inr [(''status'', PStr ''success''),
               (''message'', PStr (''Initialized model metadata in folder: '' @ folder)),
               (''data'', PDict [])]))
       w"

text \<open>
  The create and update adapters end alike: a truthy \<open>error\<close> field of the response
  makes an error envelope with that field as message; otherwise the success message is
  stored in the response dict and returned. \<open>extra\<close> holds the fields some adapters put
  between \<open>message\<close> and \<open>data\<close>.
\<close>

definition created_result :: "pydict \<Rightarrow> string \<Rightarrow> pyval \<Rightarrow> exn + pydict" where
  "created_result extra success_message response =
     bind_exn (as_dict response) (\<lambda>response_dict.
       if truthy (dict_get response_dict ''error'') then
         Inr ([(''status'', PStr ''error''), (''message'', dict_get response_dict ''error'')]
              @ extra @ [(''data'', PDict response_dict)])
       else
         (let response_dict' = AList.update ''message'' (PStr success_message) response_dict
          in Inr ([(''status'', PStr ''success''), (''message'', dict_get response_dict' ''message'')]
                  @ extra @ [(''data'', PDict response_dict')])))"

text \<open>The delete adapters do the same without touching the response dict.\<close>

definition deleted_result :: "pydict \<Rightarrow> string \<Rightarrow> pyval \<Rightarrow> exn + pydict" where
  "deleted_result extra success_message response =
     bind_exn (as_dict response) (\<lambda>response_dict.
       if truthy (dict_get response_dict ''error'') then
         Inr ([(''status'', PStr ''error''), (''message'', dict_get response_dict ''error'')]
              @ extra @ [(''data'', PDict response_dict)])
       else
         Inr ([(''status'', PStr ''success''), (''message'', PStr success_message)]
              @ extra @ [(''data'', PDict response_dict)]))"

text \<open>\<open>{"status": "error", "message": m, <extra>, "data": {}}\<close>\<close>

definition error_data :: "pydict \<Rightarrow> string \<Rightarrow> pydict" where
  "error_data extra m =
     [(''status'', PStr ''error''), (''message'', PStr m)] @ extra @ [(''data'', PDict [])]"

definition model_create :: "delegate \<Rightarrow> string \<Rightarrow> world \<Rightarrow> pydict \<times> world" where
  "model_create api folder w =
     (if folder = [] \<or> \<not> isdir w folder then
        (error_data [] (''Folder does not exist: '' @ folder), w)
      else if \<not> exists w (path_join folder ''model-metadata.json'') then
        (error_data [] (''model-metadata.json not found in '' @ folder), w)
      else
        try_call api Executor
          (Api ''model_create_new'' [PStr folder] [])
          (\<lambda>e. error_data [] (''Failed to create model: '' @ exn_str e))
          (pure_body (created_result [] ''Model created successfully.''))
          w)"

definition model_update :: "delegate \<Rightarrow> string \<Rightarrow> world \<Rightarrow> pydict \<times> world" where
  "model_update api folder w =
     (if folder = [] \<or> \<not> isdir w folder then
        (error_data [] (''Folder does not exist: '' @ folder), w)
      else if \<not> exists w (path_join folder ''model-metadata.json'') then
        (error_data [] (''model-metadata.json not found in '' @ folder), w)
      else
        try_call api Executor
          (Api ''model_update'' [PStr folder] [])
          (\<lambda>e. error_data [] (''Failed to update model: '' @ exn_str e))
          (pure_body (created_result [] ''Model updated successfully.''))
          w)"

definition model_delete :: "delegate \<Rightarrow> string \<Rightarrow> bool \<Rightarrow> world \<Rightarrow> pydict \<times> world" where
  "model_delete api model confirmation w =
     (if model = [] \<or> CHR ''/'' \<notin> set model then
        (error_data [(''model'', PStr model)]
           (''Model must be specified as '' @ sq ''owner/model-name'' @ ''.''), w)
      else if \<not> confirmation then
        (error_data [(''model'', PStr model)]
           ''Deletion not confirmed. Set confirmation=True to delete.'', w)
      else
        try_call api Executor
          (Api ''model_delete'' [PStr model] [(''yes'', PBool confirmation)])
          (\<lambda>e. error_data [(''model'', PStr model)]
                 (''Failed to delete model '' @ sq model @ '': '' @ exn_str e))
          (pure_body (deleted_result [(''model'', PStr model)]
                        (''Model '' @ sq model @ '' deleted successfully.'')))
          w)"

section \<open>The adapters: model instances\<close>

definition model_instance_get :: "delegate \<Rightarrow> string \<Rightarrow> string option \<Rightarrow> world \<Rightarrow> pydict \<times> world" where
  "model_instance_get api model_instance path w =
     (if model_instance = [] \<or> CHR ''/'' \<notin> set model_instance then
        ([(''status'', PStr ''error''),
          (''message'', PStr (''Model instance must be specified in the form ''
                               @ sq ''owner/model/framework/instance-slug'' @ ''.'')),
          (''model_instance'', PStr model_instance),
          (''data'', PDict []),
          (''file_path'', PStr [])], w)
      else
        (let path = (case path of None \<Rightarrow> w_cwd w | Some p \<Rightarrow> p)
         in try_io_call (makedirs path) api Executor
              (Api ''model_instance_get'' [PStr model_instance] [])
              (\<lambda>e. [(''status'', PStr ''error''),
                    (''message'', PStr (''Failed to retrieve model instance '' @ sq model_instance
                                         @ '': '' @ exn_str e)),
                    (''model_instance'', PStr model_instance),
                    (''data'', PDict []),
                    (''file_path'', PStr [])])
              (save_metadata path ''model-instance-metadata.json''
                 (\<lambda>response_dict file_path.
                    [(''status'', PStr ''success''),
                     (''message'', PStr (''Model instance '' @ sq model_instance
                                          @ '' retrieved and saved successfully.'')),
                     (''model_instance'', PStr model_instance),
                     (''data'', PDict response_dict),
                     (''file_path'', PStr file_path)]))
              w))"

definition model_instance_initialize :: "delegate \<Rightarrow> string \<Rightarrow> world \<Rightarrow> pydict \<times> world" where
  "model_instance_initialize api folder w =
     try_io_call (makedirs folder) api Executor
       (Api ''model_instance_initialize'' [PStr folder] [])
       (\<lambda>e. [(''status'', PStr ''error''),
             (''message'', PStr (''Failed to initialize model instance metadata: '' @ exn_str e)),
             (''data'', PDict [])])
       (pure_body (\<lambda>r.
          Inr [(''status'', PStr ''success''),
               (''message'', PStr (''Initialized model instance metadata in folder: '' @ folder)),
               (''data'', PDict [])]))
       w"

definition model_instance_create ::
  "delegate \<Rightarrow> string \<Rightarrow> bool \<Rightarrow> string \<Rightarrow> world \<Rightarrow> pydict \<times> world" where
  "model_instance_create api folder quiet dir_mode w =
     (if folder = [] \<or> \<not> isdir w folder then
        (error_data [] (''Folder does not exist: '' @ folder), w)
      else if \<not> exists w (path_join folder ''model-instance-metadata.json'') then
        (error_data [] (''model-instance-metadata.json not found in '' @ folder), w)
      else
        try_call api Executor
          (Api ''model_instance_create'' [PStr folder]
             [(''quiet'', PBool quiet), (''dir_mode'', PStr dir_mode)])
          (\<lambda>e. error_data [] (''Failed to create model instance: '' @ exn_str e))
          (pure_body (created_result [] ''Model instance created successfully.''))
          w)"

definition model_instance_update :: "delegate \<Rightarrow> string \<Rightarrow> world \<Rightarrow> pydict \<times> world" where
  "model_instance_update api folder w =
     (if folder = [] \<or> \<not> isdir w folder then
        (error_data [] (''Folder does not exist: '' @ folder), w)
      else if \<not> exists w (path_join folder ''model-instance-metadata.json'') then
        (error_data [] (''model-instance-metadata.json not found in '' @ folder), w)
      else
        try_call api Executor
          (Api ''model_instance_update'' [PStr folder] [])
          (\<lambda>e. error_data [] (''Failed to update model instance: '' @ exn_str e))
          (pure_body (created_result [] ''Model instance updated successfully.''))
          w)"

definition model_instance_delete :: "delegate \<Rightarrow> string \<Rightarrow> bool \<Rightarrow> world \<Rightarrow> pydict \<times> world" where
  "model_instance_delete api model_instance confirmation w =
     (if model_instance = [] \<or> CHR ''/'' \<notin> set model_instance then
        (error_data [(''model_instance'', PStr model_instance)]
           (''Model instance must be specified as ''
            @ sq ''owner/model/framework/instance-slug'' @ ''.''), w)
      else if \<not> confirmation then
        (error_data [(''model_instance'', PStr model_instance)]
           ''Deletion not confirmed. Set confirmation=True to delete.'', w)
      else
        try_call api Executor
          (Api ''model_instance_delete'' [PStr model_instance] [(''yes'', PBool confirmation)])
          (\<lambda>e. error_data [(''model_instance'', PStr model_instance)]
                 (''Failed to delete model instance '' @ sq model_instance @ '': '' @ exn_str e))
          (pure_body (deleted_result [(''model_instance'', PStr model_instance)]
                        (''Model instance '' @ sq model_instance @ '' deleted successfully.'')))
          w)"

definition model_instance_version_create ::
  "delegate \<Rightarrow> string \<Rightarrow> string \<Rightarrow> string \<Rightarrow> bool \<Rightarrow> string \<Rightarrow> world \<Rightarrow> pydict \<times> world" where
  "model_instance_version_create api model_instance folder version_notes quiet dir_mode w =
     (if model_instance = [] \<or> CHR ''/'' \<notin> set model_instance then
        (error_data [(''model_instance'', PStr model_instance)]
           (''Model instance must be specified as ''
            @ sq ''owner/model/framework/instance-slug'' @ ''.''), w)
      else if folder = [] \<or> \<not> isdir w folder then
        (error_data [(''model_instance'', PStr model_instance)]
           (''Folder does not exist: '' @ folder), w)
      else if \<not> exists w (path_join folder ''model-instance-metadata.json'') then
        (error_data [(''model_instance'', PStr model_instance)]
           (''model-instance-metadata.json not found in '' @ folder), w)
      else
        try_call api Executor
          (Api ''model_instance_version_create'' [PStr model_instance, PStr folder]
             [(''version_notes'', PStr version_notes), (''quiet'', PBool quiet),
              (''dir_mode'', PStr dir_mode)])
          (\<lambda>e. error_data [(''model_instance'', PStr model_instance)]
                 (''Failed to create model instance version: '' @ exn_str e))
          (pure_body (created_result [(''model_instance'', PStr model_instance)]
                        ''Model instance version created successfully.''))
          w)"

definition model_instance_version_download ::
  "delegate \<Rightarrow> string \<Rightarrow> string option \<Rightarrow> bool \<Rightarrow> bool \<Rightarrow> bool \<Rightarrow> world \<Rightarrow> pydict \<times> world" where
  "model_instance_version_download api model_instance_version path force quiet untar w =
     (if model_instance_version = [] \<or> CHR ''/'' \<notin> set model_instance_version then
        ([(''status'', PStr ''error''),
          (''message'', PStr (''Model instance version must be specified as ''
                               @ sq ''owner/model/framework/instance-slug/version-number'' @ ''.'')),
          (''model_instance_version'', PStr model_instance_version),
          (''saved_path'', PStr [])], w)
      else
        (let path = (case path of None \<Rightarrow> w_cwd w | Some p \<Rightarrow> p)
         in try_io_call (makedirs path) api Executor
              (Api ''model_instance_version_download'' [PStr model_instance_version]
                 [(''path'', PStr path), (''force'', PBool force), (''quiet'', PBool quiet),
                  (''untar'', PBool untar)])
              (\<lambda>e. [(''status'', PStr ''error''),
                    (''message'', PStr (''Failed to download model instance version ''
                                         @ sq model_instance_version @ '': '' @ exn_str e)),
                    (''model_instance_version'', PStr model_instance_version),
                    (''saved_path'', PStr [])])
              (\<lambda>r w1.
                 (Inr [(''status'', PStr ''success''),
                       (''message'', PStr (''Downloaded model instance version ''
                                            @ sq model_instance_version @ '' successfully.'')),
                       (''model_instance_version'', PStr model_instance_version),
                       (''saved_path'', PStr (abspath w1 path))], w1))
              w))"

definition model_instance_version_files ::
  "delegate \<Rightarrow> string \<Rightarrow> string option \<Rightarrow> int \<Rightarrow> bool \<Rightarrow> world \<Rightarrow> pydict \<times> world" where
  "model_instance_version_files api model_instance_version page_token page_size csv_display w =
     (if model_instance_version = [] \<or> CHR ''/'' \<notin> set model_instance_version then
        ([(''status'', PStr ''error''),
          (''message'', PStr (''Model instance version must be specified as ''
                               @ sq ''owner/model/framework/instance-slug/version-number'' @ ''.'')),
          (''model_instance_version'', PStr model_instance_version),
          (''files'', PList [])], w)
      else
        try_call api Executor
          (Api ''model_instance_version_files'' [PStr model_instance_version]
             [(''page_token'', opt_str page_token), (''page_size'', PInt page_size),
              (''csv_display'', PBool csv_display)])
          (\<lambda>e. [(''status'', PStr ''error''),
                (''message'', PStr (''Failed to retrieve files for model instance version ''
                                     @ sq model_instance_version @ '': '' @ exn_str e)),
                (''model_instance_version'', PStr model_instance_version),
                (''files'', PList [])])
          (pure_body (\<lambda>api_response.
             bind_exn (py_iter (getattr_default api_response ''files'' (PList []))) (\<lambda>files_list.
             Inr [(''status'', PStr ''success''),
                  (''message'', PStr (''Retrieved '' @ str_nat (length files_list)
                                       @ '' files for model instance version ''
                                       @ sq model_instance_version @ ''.'')),
                  (''model_instance_version'', PStr model_instance_version),
                  (''files'', PList files_list)])))
          w)"

definition model_instance_version_delete ::
  "delegate \<Rightarrow> string \<Rightarrow> bool \<Rightarrow> world \<Rightarrow> pydict \<times> world" where
  "model_instance_version_delete api model_instance_version confirmation w =
     (if model_instance_version = [] \<or> CHR ''/'' \<notin> set model_instance_version then
        (error_data [(''model_instance_version'', PStr model_instance_version)]
           (''Model instance version must be specified as ''
            @ sq ''owner/model/framework/instance-slug/version-number'' @ ''.''), w)
      else if \<not> confirmation then
        (error_data [(''model_instance_version'', PStr model_instance_version)]
           ''Deletion not confirmed. Set confirmation=True to delete.'', w)
      else
        try_call api Executor
          (Api ''model_instance_version_delete'' [PStr model_instance_version]
             [(''yes'', PBool confirmation)])
          (\<lambda>e. error_data [(''model_instance_version'', PStr model_instance_version)]
                 (''Failed to delete model instance version '' @ sq model_instance_version
                  @ '': '' @ exn_str e))
          (pure_body (deleted_result [(''model_instance_version'', PStr model_instance_version)]
                        (''Model instance version '' @ sq model_instance_version
                         @ '' deleted successfully.'')))
          w)"


section \<open>The tool surface\<close>

text \<open>A call of one of the registered tools with its arguments, in the order of the
  Python signature, and the function that runs it.\<close>

datatype tool_call =
    T_competitions_list int "string option"
  | T_competition_list_files string "string option" int
  | T_competition_download_file string string "string option" bool bool
  | T_competition_download_files string "string option" bool bool
  | T_competition_submit string string string bool
  | T_competition_submissions string "string option" "string option" int int
  | T_competition_leaderboard_view string
  | T_competition_leaderboard_download string string bool
  | T_datasets_list pyval pyval pyval pyval pyval pyval pyval pyval pyval pyval pyval
  | T_dataset_metadata string "string option"
  | T_dataset_list_files string "string option" int
  | T_dataset_status string
  | T_dataset_download_file string string "string option" pyval pyval pyval
  | T_dataset_download_files string "string option" bool bool pyval
  | T_dataset_create string bool bool bool string
  | T_dataset_initialize string
  | T_dataset_create_version string string bool bool bool string
  | T_kernels_list int int "string option" "string option" "string option" "string option" bool "string option" "string option" "string option" "string option"
  | T_kernel_list_files string "string option" int
  | T_kernel_initialize string
  | T_kernel_push string "int option"
  | T_kernel_pull string string bool bool
  | T_kernel_output string string bool bool
  | T_kernel_status string
  | T_models_list "string option" "string option" "string option" int "string option"
  | T_model_get string "string option"
  | T_model_initialize string
  | T_model_create string
  | T_model_update string
  | T_model_delete string bool
  | T_model_instance_get string "string option"
  | T_model_instance_initialize string
  | T_model_instance_create string bool string
  | T_model_instance_update string
  | T_model_instance_delete string bool
  | T_model_instance_version_create string string string bool string
  | T_model_instance_version_download string "string option" bool bool bool
  | T_model_instance_version_files string "string option" int bool
  | T_model_instance_version_delete string bool

primrec run :: "delegate \<Rightarrow> tool_call \<Rightarrow> world \<Rightarrow> pydict \<times> world" where
  "run api (T_competitions_list a1 a2) w = competitions_list api a1 a2 w"
| "run api (T_competition_list_files a1 a2 a3) w = competition_list_files api a1 a2 a3 w"
| "run api (T_competition_download_file a1 a2 a3 a4 a5) w = competition_download_file api a1 a2 a3 a4 a5 w"
| "run api (T_competition_download_files a1 a2 a3 a4) w = competition_download_files api a1 a2 a3 a4 w"
| "run api (T_competition_submit a1 a2 a3 a4) w = competition_submit api a1 a2 a3 a4 w"
| "run api (T_competition_submissions a1 a2 a3 a4 a5) w = competition_submissions api a1 a2 a3 a4 a5 w"
| "run api (T_competition_leaderboard_view a1) w = competition_leaderboard_view api a1 w"
| "run api (T_competition_leaderboard_download a1 a2 a3) w = competition_leaderboard_download api a1 a2 a3 w"
| "run api (T_datasets_list a1 a2 a3 a4 a5 a6 a7 a8 a9 a10 a11) w = datasets_list api a1 a2 a3 a4 a5 a6 a7 a8 a9 a10 a11 w"
| "run api (T_dataset_metadata a1 a2) w = dataset_metadata api a1 a2 w"
| "run api (T_dataset_list_files a1 a2 a3) w = dataset_list_files api a1 a2 a3 w"
| "run api (T_dataset_status a1) w = dataset_status api a1 w"
| "run api (T_dataset_download_file a1 a2 a3 a4 a5 a6) w = dataset_download_file api a1 a2 a3 a4 a5 a6 w"
| "run api (T_dataset_download_files a1 a2 a3 a4 a5) w = dataset_download_files api a1 a2 a3 a4 a5 w"
| "run api (T_dataset_create a1 a2 a3 a4 a5) w = dataset_create api a1 a2 a3 a4 a5 w"
| "run api (T_dataset_initialize a1) w = dataset_initialize api a1 w"
| "run api (T_dataset_create_version a1 a2 a3 a4 a5 a6) w = dataset_create_version api a1 a2 a3 a4 a5 a6 w"
| "run api (T_kernels_list a1 a2 a3 a4 a5 a6 a7 a8 a9 a10 a11) w = kernels_list api a1 a2 a3 a4 a5 a6 a7 a8 a9 a10 a11 w"
| "run api (T_kernel_list_files a1 a2 a3) w = kernel_list_files api a1 a2 a3 w"
| "run api (T_kernel_initialize a1) w = kernel_initialize api a1 w"
| "run api (T_kernel_push a1 a2) w = kernel_push api a1 a2 w"
| "run api (T_kernel_pull a1 a2 a3 a4) w = kernel_pull api a1 a2 a3 a4 w"
| "run api (T_kernel_output a1 a2 a3 a4) w = kernel_output api a1 a2 a3 a4 w"
| "run api (T_kernel_status a1) w = kernel_status api a1 w"
| "run api (T_models_list a1 a2 a3 a4 a5) w = models_list api a1 a2 a3 a4 a5 w"
| "run api (T_model_get a1 a2) w = model_get api a1 a2 w"
| "run api (T_model_initialize a1) w = model_initialize api a1 w"
| "run api (T_model_create a1) w = model_create api a1 w"
| "run api (T_model_update a1) w = model_update api a1 w"
| "run api (T_model_delete a1 a2) w = model_delete api a1 a2 w"
| "run api (T_model_instance_get a1 a2) w = model_instance_get api a1 a2 w"
| "run api (T_model_instance_initialize a1) w = model_instance_initialize api a1 w"
| "run api (T_model_instance_create a1 a2 a3) w = model_instance_create api a1 a2 a3 w"
| "run api (T_model_instance_update a1) w = model_instance_update api a1 w"
| "run api (T_model_instance_delete a1 a2) w = model_instance_delete api a1 a2 w"
| "run api (T_model_instance_version_create a1 a2 a3 a4 a5) w = model_instance_version_create api a1 a2 a3 a4 a5 w"
| "run api (T_model_instance_version_download a1 a2 a3 a4 a5) w = model_instance_version_download api a1 a2 a3 a4 a5 w"
| "run api (T_model_instance_version_files a1 a2 a3 a4) w = model_instance_version_files api a1 a2 a3 a4 w"
| "run api (T_model_instance_version_delete a1 a2) w = model_instance_version_delete api a1 a2 w"

section \<open>What every adapter checks, does first and says on an exception\<close>

text \<open>The condition under which an adapter returns before its \<open>try\<close> block: the
  disjunction of the conditions of its early \<open>return\<close> statements. An adapter without
  such a statement has none.\<close>

primrec fails_validation :: "tool_call \<Rightarrow> world \<Rightarrow> bool" where
  "fails_validation (T_competitions_list a1 a2) w = (False)"
| "fails_validation (T_competition_list_files a1 a2 a3) w = (False)"
| "fails_validation (T_competition_download_file a1 a2 a3 a4 a5) w = (False)"
| "fails_validation (T_competition_download_files a1 a2 a3 a4) w = (False)"
| "fails_validation (T_competition_submit a1 a2 a3 a4) w = (False)"
| "fails_validation (T_competition_submissions a1 a2 a3 a4 a5) w = (False)"
| "fails_validation (T_competition_leaderboard_view a1) w = (False)"
| "fails_validation (T_competition_leaderboard_download a1 a2 a3) w = (False)"
| "fails_validation (T_datasets_list a1 a2 a3 a4 a5 a6 a7 a8 a9 a10 a11) w = (False)"
| "fails_validation (T_dataset_metadata a1 a2) w = (False)"
| "fails_validation (T_dataset_list_files a1 a2 a3) w = (False)"
| "fails_validation (T_dataset_status a1) w = (False)"
| "fails_validation (T_dataset_download_file a1 a2 a3 a4 a5 a6) w = (False)"
| "fails_validation (T_dataset_download_files a1 a2 a3 a4 a5) w = (False)"
| "fails_validation (T_dataset_create a1 a2 a3 a4 a5) w = (a1 = [] \<or> \<not> isdir w a1)"
| "fails_validation (T_dataset_initialize a1) w = (a1 = [] \<or> \<not> isdir w a1)"
| "fails_validation (T_dataset_create_version a1 a2 a3 a4 a5 a6) w = (a1 = [] \<or> \<not> isdir w a1)"
| "fails_validation (T_kernels_list a1 a2 a3 a4 a5 a6 a7 a8 a9 a10 a11) w = (False)"
| "fails_validation (T_kernel_list_files a1 a2 a3) w = (a1 = [] \<or> \<not> re_match_kernel a1)"
| "fails_validation (T_kernel_initialize a1) w = (a1 = [] \<or> \<not> isdir w a1)"
| "fails_validation (T_kernel_push a1 a2) w = (a1 = [] \<or> \<not> isdir w a1 \<or> \<not> exists w (path_join a1 ''kernel-metadata.json''))"
| "fails_validation (T_kernel_pull a1 a2 a3 a4) w = (a1 = [] \<or> CHR ''/'' \<notin> set a1)"
| "fails_validation (T_kernel_output a1 a2 a3 a4) w = (a1 = [] \<or> CHR ''/'' \<notin> set a1)"
| "fails_validation (T_kernel_status a1) w = (a1 = [] \<or> CHR ''/'' \<notin> set a1)"
| "fails_validation (T_models_list a1 a2 a3 a4 a5) w = (False)"
| "fails_validation (T_model_get a1 a2) w = (a1 = [] \<or> CHR ''/'' \<notin> set a1)"
| "fails_validation (T_model_initialize a1) w = (False)"
| "fails_validation (T_model_create a1) w = (a1 = [] \<or> \<not> isdir w a1 \<or> \<not> exists w (path_join a1 ''model-metadata.json''))"
| "fails_validation (T_model_update a1) w = (a1 = [] \<or> \<not> isdir w a1 \<or> \<not> exists w (path_join a1 ''model-metadata.json''))"
| "fails_validation (T_model_delete a1 a2) w = (a1 = [] \<or> CHR ''/'' \<notin> set a1 \<or> \<not> a2)"
| "fails_validation (T_model_instance_get a1 a2) w = (a1 = [] \<or> CHR ''/'' \<notin> set a1)"
| "fails_validation (T_model_instance_initialize a1) w = (False)"
| "fails_validation (T_model_instance_create a1 a2 a3) w = (a1 = [] \<or> \<not> isdir w a1 \<or> \<not> exists w (path_join a1 ''model-instance-metadata.json''))"
| "fails_validation (T_model_instance_update a1) w = (a1 = [] \<or> \<not> isdir w a1 \<or> \<not> exists w (path_join a1 ''model-instance-metadata.json''))"
| "fails_validation (T_model_instance_delete a1 a2) w = (a1 = [] \<or> CHR ''/'' \<notin> set a1 \<or> \<not> a2)"
| "fails_validation (T_model_instance_version_create a1 a2 a3 a4 a5) w = (a1 = [] \<or> CHR ''/'' \<notin> set a1 \<or> a2 = [] \<or> \<not> isdir w a2 \<or> \<not> exists w (path_join a2 ''model-instance-metadata.json''))"
| "fails_validation (T_model_instance_version_download a1 a2 a3 a4 a5) w = (a1 = [] \<or> CHR ''/'' \<notin> set a1)"
| "fails_validation (T_model_instance_version_files a1 a2 a3 a4) w = (a1 = [] \<or> CHR ''/'' \<notin> set a1)"
| "fails_validation (T_model_instance_version_delete a1 a2) w = (a1 = [] \<or> CHR ''/'' \<notin> set a1 \<or> \<not> a2)"

text \<open>The file system operation an adapter performs in its \<open>try\<close> block before it
  calls the delegate.\<close>

primrec pre_io :: "tool_call \<Rightarrow> world \<Rightarrow> (exn + unit) \<times> world" where
  "pre_io (T_competitions_list a1 a2) w = (Inr (), w)"
| "pre_io (T_competition_list_files a1 a2 a3) w = (Inr (), w)"
| "pre_io (T_competition_download_file a1 a2 a3 a4 a5) w = (Inr (), w)"
| "pre_io (T_competition_download_files a1 a2 a3 a4) w = (Inr (), w)"
| "pre_io (T_competition_submit a1 a2 a3 a4) w = (Inr (), w)"
| "pre_io (T_competition_submissions a1 a2 a3 a4 a5) w = (Inr (), w)"
| "pre_io (T_competition_leaderboard_view a1) w = (Inr (), w)"
| "pre_io (T_competition_leaderboard_download a1 a2 a3) w = (Inr (), w)"
| "pre_io (T_datasets_list a1 a2 a3 a4 a5 a6 a7 a8 a9 a10 a11) w = (Inr (), w)"
| "pre_io (T_dataset_metadata a1 a2) w = (Inr (), w)"
| "pre_io (T_dataset_list_files a1 a2 a3) w = (Inr (), w)"
| "pre_io (T_dataset_status a1) w = (Inr (), w)"
| "pre_io (T_dataset_download_file a1 a2 a3 a4 a5 a6) w = (Inr (), w)"
| "pre_io (T_dataset_download_files a1 a2 a3 a4 a5) w = (Inr (), w)"
| "pre_io (T_dataset_create a1 a2 a3 a4 a5) w = (Inr (), w)"
| "pre_io (T_dataset_initialize a1) w = (Inr (), w)"
| "pre_io (T_dataset_create_version a1 a2 a3 a4 a5 a6) w = (Inr (), w)"
| "pre_io (T_kernels_list a1 a2 a3 a4 a5 a6 a7 a8 a9 a10 a11) w = (Inr (), w)"
| "pre_io (T_kernel_list_files a1 a2 a3) w = (Inr (), w)"
| "pre_io (T_kernel_initialize a1) w = (Inr (), w)"
| "pre_io (T_kernel_push a1 a2) w = (Inr (), w)"
| "pre_io (T_kernel_pull a1 a2 a3 a4) w = (makedirs_unless_dir a2 w)"
| "pre_io (T_kernel_output a1 a2 a3 a4) w = (makedirs_unless_dir a2 w)"
| "pre_io (T_kernel_status a1) w = (Inr (), w)"
| "pre_io (T_models_list a1 a2 a3 a4 a5) w = (Inr (), w)"
| "pre_io (T_model_get a1 a2) w = (makedirs (case a2 of None \<Rightarrow> w_cwd w | Some p \<Rightarrow> p) w)"
| "pre_io (T_model_initialize a1) w = (makedirs a1 w)"
| "pre_io (T_model_create a1) w = (Inr (), w)"
| "pre_io (T_model_update a1) w = (Inr (), w)"
| "pre_io (T_model_delete a1 a2) w = (Inr (), w)"
| "pre_io (T_model_instance_get a1 a2) w = (makedirs (case a2 of None \<Rightarrow> w_cwd w | Some p \<Rightarrow> p) w)"
| "pre_io (T_model_instance_initialize a1) w = (makedirs a1 w)"
| "pre_io (T_model_instance_create a1 a2 a3) w = (Inr (), w)"
| "pre_io (T_model_instance_update a1) w = (Inr (), w)"
| "pre_io (T_model_instance_delete a1 a2) w = (Inr (), w)"
| "pre_io (T_model_instance_version_create a1 a2 a3 a4 a5) w = (Inr (), w)"
| "pre_io (T_model_instance_version_download a1 a2 a3 a4 a5) w = (makedirs (case a2 of None \<Rightarrow> w_cwd w | Some p \<Rightarrow> p) w)"
| "pre_io (T_model_instance_version_files a1 a2 a3 a4) w = (Inr (), w)"
| "pre_io (T_model_instance_version_delete a1 a2) w = (Inr (), w)"


section \<open>Envelopes\<close>

definition status_of :: "pydict \<Rightarrow> pyval option" where
  "status_of env = map_of env ''status''"

definition message_of :: "pydict \<Rightarrow> pyval option" where
  "message_of env = map_of env ''message''"

definition is_error :: "pydict \<Rightarrow> bool" where
  "is_error env = (status_of env = Some (PStr ''error''))"

definition is_success :: "pydict \<Rightarrow> bool" where
  "is_success env = (status_of env = Some (PStr ''success''))"

text \<open>The response envelope: \<open>status\<close> is \<open>"success"\<close> or \<open>"error"\<close> and there is a
  \<open>message\<close> key.\<close>

definition is_envelope :: "pydict \<Rightarrow> bool" where
  "is_envelope env = ((is_success env \<or> is_error env) \<and> message_of env \<noteq> None)"


section \<open>Responses an adapter turns into a success\<close>









section \<open>Identifiers, folders and the error field\<close>

text \<open>\<open>k.split("/")\<close>: the segments of an identifier.\<close>

fun split_slash :: "string \<Rightarrow> string list" where
  "split_slash [] = [[]]"
| "split_slash (c # cs) =
     (if c = CHR ''/'' then [] # split_slash cs
      else (case split_slash cs of [] \<Rightarrow> [[c]] | s # ss \<Rightarrow> (c # s) # ss))"




text \<open>The folder argument an adapter tests with \<open>os.path.isdir\<close> before anything
  else is done with it, and the one it creates with \<open>os.makedirs\<close> instead.\<close>

primrec required_folder :: "tool_call \<Rightarrow> string option" where
  "required_folder (T_competitions_list a1 a2) = (None)"
| "required_folder (T_competition_list_files a1 a2 a3) = (None)"
| "required_folder (T_competition_download_file a1 a2 a3 a4 a5) = (None)"
| "required_folder (T_competition_download_files a1 a2 a3 a4) = (None)"
| "required_folder (T_competition_submit a1 a2 a3 a4) = (None)"
| "required_folder (T_competition_submissions a1 a2 a3 a4 a5) = (None)"
| "required_folder (T_competition_leaderboard_view a1) = (None)"
| "required_folder (T_competition_leaderboard_download a1 a2 a3) = (None)"
| "required_folder (T_datasets_list a1 a2 a3 a4 a5 a6 a7 a8 a9 a10 a11) = (None)"
| "required_folder (T_dataset_metadata a1 a2) = (None)"
| "required_folder (T_dataset_list_files a1 a2 a3) = (None)"
| "required_folder (T_dataset_status a1) = (None)"
| "required_folder (T_dataset_download_file a1 a2 a3 a4 a5 a6) = (None)"
| "required_folder (T_dataset_download_files a1 a2 a3 a4 a5) = (None)"
| "required_folder (T_dataset_create a1 a2 a3 a4 a5) = (Some a1)"
| "required_folder (T_dataset_initialize a1) = (Some a1)"
| "required_folder (T_dataset_create_version a1 a2 a3 a4 a5 a6) = (Some a1)"
| "required_folder (T_kernels_list a1 a2 a3 a4 a5 a6 a7 a8 a9 a10 a11) = (None)"
| "required_folder (T_kernel_list_files a1 a2 a3) = (None)"
| "required_folder (T_kernel_initialize a1) = (Some a1)"
| "required_folder (T_kernel_push a1 a2) = (Some a1)"
| "required_folder (T_kernel_pull a1 a2 a3 a4) = (None)"
| "required_folder (T_kernel_output a1 a2 a3 a4) = (None)"
| "required_folder (T_kernel_status a1) = (None)"
| "required_folder (T_models_list a1 a2 a3 a4 a5) = (None)"
| "required_folder (T_model_get a1 a2) = (None)"
| "required_folder (T_model_initialize a1) = (None)"
| "required_folder (T_model_create a1) = (Some a1)"
| "required_folder (T_model_update a1) = (Some a1)"
| "required_folder (T_model_delete a1 a2) = (None)"
| "required_folder (T_model_instance_get a1 a2) = (None)"
| "required_folder (T_model_instance_initialize a1) = (None)"
| "required_folder (T_model_instance_create a1 a2 a3) = (Some a1)"
| "required_folder (T_model_instance_update a1) = (Some a1)"
| "required_folder (T_model_instance_delete a1 a2) = (None)"
| "required_folder (T_model_instance_version_create a1 a2 a3 a4 a5) = (Some a2)"
| "required_folder (T_model_instance_version_download a1 a2 a3 a4 a5) = (None)"
| "required_folder (T_model_instance_version_files a1 a2 a3 a4) = (None)"
| "required_folder (T_model_instance_version_delete a1 a2) = (None)"

primrec created_folder :: "tool_call \<Rightarrow> world \<Rightarrow> string option" where
  "created_folder (T_competitions_list a1 a2) w = (None)"
| "created_folder (T_competition_list_files a1 a2 a3) w = (None)"
| "created_folder (T_competition_download_file a1 a2 a3 a4 a5) w = (None)"
| "created_folder (T_competition_download_files a1 a2 a3 a4) w = (None)"
| "created_folder (T_competition_submit a1 a2 a3 a4) w = (None)"
| "created_folder (T_competition_submissions a1 a2 a3 a4 a5) w = (None)"
| "created_folder (T_competition_leaderboard_view a1) w = (None)"
| "created_folder (T_competition_leaderboard_download a1 a2 a3) w = (None)"
| "created_folder (T_datasets_list a1 a2 a3 a4 a5 a6 a7 a8 a9 a10 a11) w = (None)"
| "created_folder (T_dataset_metadata a1 a2) w = (None)"
| "created_folder (T_dataset_list_files a1 a2 a3) w = (None)"
| "created_folder (T_dataset_status a1) w = (None)"
| "created_folder (T_dataset_download_file a1 a2 a3 a4 a5 a6) w = (None)"
| "created_folder (T_dataset_download_files a1 a2 a3 a4 a5) w = (None)"
| "created_folder (T_dataset_create a1 a2 a3 a4 a5) w = (None)"
| "created_folder (T_dataset_initialize a1) w = (None)"
| "created_folder (T_dataset_create_version a1 a2 a3 a4 a5 a6) w = (None)"
| "created_folder (T_kernels_list a1 a2 a3 a4 a5 a6 a7 a8 a9 a10 a11) w = (None)"
| "created_folder (T_kernel_list_files a1 a2 a3) w = (None)"
| "created_folder (T_kernel_initialize a1) w = (None)"
| "created_folder (T_kernel_push a1 a2) w = (None)"
| "created_folder (T_kernel_pull a1 a2 a3 a4) w = (Some a2)"
| "created_folder (T_kernel_output a1 a2 a3 a4) w = (Some a2)"
| "created_folder (T_kernel_status a1) w = (None)"
| "created_folder (T_models_list a1 a2 a3 a4 a5) w = (None)"
| "created_folder (T_model_get a1 a2) w = (Some (case a2 of None \<Rightarrow> w_cwd w | Some p \<Rightarrow> p))"
| "created_folder (T_model_initialize a1) w = (Some a1)"
| "created_folder (T_model_create a1) w = (None)"
| "created_folder (T_model_update a1) w = (None)"
| "created_folder (T_model_delete a1 a2) w = (None)"
| "created_folder (T_model_instance_get a1 a2) w = (Some (case a2 of None \<Rightarrow> w_cwd w | Some p \<Rightarrow> p))"
| "created_folder (T_model_instance_initialize a1) w = (Some a1)"
| "created_folder (T_model_instance_create a1 a2 a3) w = (None)"
| "created_folder (T_model_instance_update a1) w = (None)"
| "created_folder (T_model_instance_delete a1 a2) w = (None)"
| "created_folder (T_model_instance_version_create a1 a2 a3 a4 a5) w = (None)"
| "created_folder (T_model_instance_version_download a1 a2 a3 a4 a5) w = (Some (case a2 of None \<Rightarrow> w_cwd w | Some p \<Rightarrow> p))"
| "created_folder (T_model_instance_version_files a1 a2 a3 a4) w = (None)"
| "created_folder (T_model_instance_version_delete a1 a2) w = (None)"


text \<open>A delegate that removes no directory.\<close>

definition keeps_dirs :: "delegate \<Rightarrow> bool" where
  "keeps_dirs api = (\<forall>cl w p. isdir w p \<longrightarrow> isdir (snd (api cl w)) p)"


section \<open>Concrete worlds and delegates\<close>

text \<open>A home directory with nothing in it, umask \<open>0o022\<close>, and an environment holding
  both credentials.\<close>

definition home_world :: world where
  "home_world = \<lparr>w_dirs = [''/home'', ''/home/u''], w_files = [], w_cwd = ''/home/u'',
         w_home = ''/home/u'', w_umask = 18, w_log = []\<rparr>"

definition creds_env :: "string \<rightharpoonup> string" where
  "creds_env = [''KAGGLE_USERNAME'' \<mapsto> ''alice'', ''KAGGLE_API_KEY'' \<mapsto> ''s3cret'']"


text \<open>A delegate that returns the same value for every call and touches nothing, and one
  that raises the same exception for every call.\<close>

definition api_const :: "pyval \<Rightarrow> delegate" where
  "api_const r = (\<lambda>c w. (Inr r, w))"

definition api_raise :: "exn \<Rightarrow> delegate" where
  "api_raise e = (\<lambda>c w. (Inl e, w))"

text \<open>An SDK object whose \<open>to_dict()\<close> gives the dict \<open>d\<close>.\<close>

definition sdk_object :: "pydict \<Rightarrow> pyval" where
  "sdk_object d = PObj (Some d) [] []"

text \<open>The same home with an old \<open>model-metadata.json\<close> in it, readable by its owner
  only.\<close>

definition metadata_world :: world where
  "metadata_world = \<lparr>w_dirs = [''/home'', ''/home/u''],
         w_files = [(''/home/u/model-metadata.json'', RawText ''old'', 384)],
         w_cwd = ''/home/u'', w_home = ''/home/u'', w_umask = 18, w_log = []\<rparr>"



section \<open>Facts about paths and the file system\<close>

lemma rstrip_slash_last: "rstrip_slash p \<noteq> [] \<Longrightarrow> last (rstrip_slash p) \<noteq> CHR ''/''"
  unfolding rstrip_slash_def
  by (metis (mono_tags, lifting) dropWhile_eq_Nil_conv hd_dropWhile last_rev rev_is_Nil_conv)

lemma rstrip_slash_append_noslash:
  "s \<noteq> [] \<Longrightarrow> last s \<noteq> CHR ''/'' \<Longrightarrow> rstrip_slash (p @ s) = p @ s"
  unfolding rstrip_slash_def
  by (cases s rule: rev_cases) auto

lemma kaggle_path_eq: "kaggle_path w = kaggle_dir w @ ''/kaggle.json''"
  by (simp add: kaggle_path_def kaggle_dir_def path_join_def)

lemma dirname_append_name:
  assumes "CHR ''/'' \<notin> set n" "d \<noteq> []" "last d \<noteq> CHR ''/''"
  shows "dirname (d @ CHR ''/'' # n) = d"
proof -
  have "dropWhile (\<lambda>c. c \<noteq> CHR ''/'') (rev (d @ CHR ''/'' # n)) = CHR ''/'' # rev d"
    using assms(1) by (simp add: dropWhile_append)
  hence h: "rev (dropWhile (\<lambda>c. c \<noteq> CHR ''/'') (rev (d @ CHR ''/'' # n))) = d @ ''/''"
    by simp
  have "rstrip_slash (d @ ''/'') = d"
    using assms(2,3) unfolding rstrip_slash_def by (cases d rule: rev_cases) auto
  thus ?thesis using assms(2) unfolding dirname_def h by (simp add: Let_def)
qed

lemma dirname_kaggle_path: "dirname (kaggle_path w) = kaggle_dir w"
  unfolding kaggle_path_eq
  by (rule dirname_append_name[of "''kaggle.json''", simplified]) (simp_all add: kaggle_dir_def)

lemma self_in_ancestors: "p \<in> set (ancestors p)"
  by (simp add: ancestors_def)

lemma ancestors_length: "q \<in> set (ancestors p) \<Longrightarrow> length q \<le> length p"
  by (auto simp: ancestors_def)

lemma makedirs_ok:
  assumes "p \<noteq> []" "\<forall>q \<in> set (ancestors p). \<not> isfile w q"
  shows "makedirs p w = (Inr (), w\<lparr>w_dirs := w_dirs w @ [q \<leftarrow> ancestors p. \<not> isdir w q]\<rparr>)"
  using assms self_in_ancestors[of p] by (auto simp: makedirs_def)


lemma init_kaggle_missing:
  assumes "environ ''KAGGLE_USERNAME'' \<in> {None, Some []} \<or> environ ''KAGGLE_API_KEY'' \<in> {None, Some []}"
  shows "init_kaggle environ w =
           (Inl (Exn ''ValueError'' ''Missing KAGGLE_USERNAME or KAGGLE_KEY environment variables''), w)"
  using assms by (auto simp: init_kaggle_def opt_str_def Let_def)

lemma init_kaggle_writes:
  assumes u: "environ ''KAGGLE_USERNAME'' = Some u" "u \<noteq> []"
      and k: "environ ''KAGGLE_API_KEY'' = Some k" "k \<noteq> []"
      and io: "bootstrap_io_ok w"
  shows "\<exists>w'. init_kaggle environ w = (Inr (), w')
            \<and> map_of (w_files w') (kaggle_path w)
                = Some (JsonText (PDict [(''username'', PStr u), (''key'', PStr k)]), 384)
            \<and> w_dirs w' = w_dirs w @ [q \<leftarrow> ancestors (kaggle_dir w). \<not> isdir w q]"
proof -
  let ?d = "kaggle_dir w" and ?f = "kaggle_path w"
  let ?creds = "PDict [(''username'', PStr u), (''key'', PStr k)]"
  define w1 where "w1 = w\<lparr>w_dirs := w_dirs w @ [q \<leftarrow> ancestors ?d. \<not> isdir w q]\<rparr>"
  have dne: "?d \<noteq> []" by (simp add: kaggle_dir_def)
  have mk: "makedirs ?d w = (Inr (), w1)"
    unfolding w1_def using io dne by (intro makedirs_ok) (auto simp: bootstrap_io_ok_def)
  have "?f \<notin> set (ancestors ?d)"
    using ancestors_length[of ?f ?d] by (auto simp: kaggle_path_eq)
  hence nd: "\<not> isdir w1 ?f"
    using io by (auto simp: w1_def isdir_def bootstrap_io_ok_def)
  have "isdir w1 ?d"
    using self_in_ancestors[of ?d] by (auto simp: w1_def isdir_def)
  hence op: "open_w_error w1 ?f = None"
    using nd by (simp add: open_w_error_def dirname_kaggle_path)
  have wr: "write_json ?f ?creds w1 = (Inr (), put_file ?f (JsonText ?creds) w1)"
    using op by (simp add: write_json_def)
  obtain m where m: "map_of (w_files (put_file ?f (JsonText ?creds) w1)) ?f = Some (JsonText ?creds, m)"
    by (simp add: put_file_def Let_def update_conv')
  have "init_kaggle environ w = chmod ?f 384 (put_file ?f (JsonText ?creds) w1)"
    using u k mk wr by (simp add: init_kaggle_def opt_str_def Let_def)
  also have "\<dots> = (Inr (), (put_file ?f (JsonText ?creds) w1)
        \<lparr>w_files := AList.update ?f (JsonText ?creds, 384) (w_files (put_file ?f (JsonText ?creds) w1))\<rparr>)"
    using m by (simp add: chmod_def)
  finally show ?thesis
    by (simp add: update_conv' w1_def put_file_def Let_def)
qed


section \<open>Facts about dictionaries and the \<open>try\<close> blocks\<close>



lemma map_of_filter_old:
  "k \<in> fst ` set base \<Longrightarrow> map_of [kv \<leftarrow> d. fst kv \<notin> fst ` set base] k = None"
proof (induction d)
  case Nil
  show ?case by simp
next
  case (Cons kv d)
  thus ?case by (cases "fst kv = k") auto
qed






lemmas env_simps = is_envelope_def is_success_def is_error_def status_of_def message_of_def
  error_envelope_def plain_handler_def error_data_def




section \<open>The three ways through a \<open>try\<close> block\<close>





lemma log_irrelevant [simp]:
  "isdir (w\<lparr>w_log := l\<rparr>) p = isdir w p"
  "isfile (w\<lparr>w_log := l\<rparr>) p = isfile w p"
  "exists (w\<lparr>w_log := l\<rparr>) p = exists w p"
  "abspath (w\<lparr>w_log := l\<rparr>) p = abspath w p"
  "open_w_error (w\<lparr>w_log := l\<rparr>) p = open_w_error w p"
  "or_cwd (w\<lparr>w_log := l\<rparr>) q = or_cwd w q"
  by (simp_all add: isdir_def isfile_def exists_def abspath_def open_w_error_def or_cwd_def
      split: option.splits)





section \<open>Every adapter but \<open>kernel_push\<close> returns an envelope\<close>








































section \<open>An adapter that rejects its input does nothing else\<close>

lemma rejects_dataset_create:
  "fails_validation (T_dataset_create a1 a2 a3 a4 a5) w \<Longrightarrow> snd (dataset_create api a1 a2 a3 a4 a5 w) = w \<and> is_error (fst (dataset_create api a1 a2 a3 a4 a5 w)) \<and> is_envelope (fst (dataset_create api a1 a2 a3 a4 a5 w))"
  by (auto simp: dataset_create_def env_simps)

lemma rejects_dataset_initialize:
  "fails_validation (T_dataset_initialize a1) w \<Longrightarrow> snd (dataset_initialize api a1 w) = w \<and> is_error (fst (dataset_initialize api a1 w)) \<and> is_envelope (fst (dataset_initialize api a1 w))"
  by (auto simp: dataset_initialize_def env_simps)

lemma rejects_dataset_create_version:
  "fails_validation (T_dataset_create_version a1 a2 a3 a4 a5 a6) w \<Longrightarrow> snd (dataset_create_version api a1 a2 a3 a4 a5 a6 w) = w \<and> is_error (fst (dataset_create_version api a1 a2 a3 a4 a5 a6 w)) \<and> is_envelope (fst (dataset_create_version api a1 a2 a3 a4 a5 a6 w))"
  by (auto simp: dataset_create_version_def env_simps)

lemma rejects_kernel_list_files:
  "fails_validation (T_kernel_list_files a1 a2 a3) w \<Longrightarrow> snd (kernel_list_files api a1 a2 a3 w) = w \<and> is_error (fst (kernel_list_files api a1 a2 a3 w)) \<and> is_envelope (fst (kernel_list_files api a1 a2 a3 w))"
  by (auto simp: kernel_list_files_def env_simps)

lemma rejects_kernel_initialize:
  "fails_validation (T_kernel_initialize a1) w \<Longrightarrow> snd (kernel_initialize api a1 w) = w \<and> is_error (fst (kernel_initialize api a1 w)) \<and> is_envelope (fst (kernel_initialize api a1 w))"
  by (auto simp: kernel_initialize_def env_simps)

lemma rejects_kernel_push:
  "fails_validation (T_kernel_push a1 a2) w \<Longrightarrow> snd (kernel_push api a1 a2 w) = w \<and> is_error (fst (kernel_push api a1 a2 w)) \<and> is_envelope (fst (kernel_push api a1 a2 w))"
  by (auto simp: kernel_push_def env_simps)

lemma rejects_kernel_pull:
  "fails_validation (T_kernel_pull a1 a2 a3 a4) w \<Longrightarrow> snd (kernel_pull api a1 a2 a3 a4 w) = w \<and> is_error (fst (kernel_pull api a1 a2 a3 a4 w)) \<and> is_envelope (fst (kernel_pull api a1 a2 a3 a4 w))"
  by (auto simp: kernel_pull_def env_simps)

lemma rejects_kernel_output:
  "fails_validation (T_kernel_output a1 a2 a3 a4) w \<Longrightarrow> snd (kernel_output api a1 a2 a3 a4 w) = w \<and> is_error (fst (kernel_output api a1 a2 a3 a4 w)) \<and> is_envelope (fst (kernel_output api a1 a2 a3 a4 w))"
  by (auto simp: kernel_output_def env_simps)

lemma rejects_kernel_status:
  "fails_validation (T_kernel_status a1) w \<Longrightarrow> snd (kernel_status api a1 w) = w \<and> is_error (fst (kernel_status api a1 w)) \<and> is_envelope (fst (kernel_status api a1 w))"
  by (auto simp: kernel_status_def env_simps)

lemma rejects_model_get:
  "fails_validation (T_model_get a1 a2) w \<Longrightarrow> snd (model_get api a1 a2 w) = w \<and> is_error (fst (model_get api a1 a2 w)) \<and> is_envelope (fst (model_get api a1 a2 w))"
  by (auto simp: model_get_def env_simps)

lemma rejects_model_create:
  "fails_validation (T_model_create a1) w \<Longrightarrow> snd (model_create api a1 w) = w \<and> is_error (fst (model_create api a1 w)) \<and> is_envelope (fst (model_create api a1 w))"
  by (auto simp: model_create_def env_simps)

lemma rejects_model_update:
  "fails_validation (T_model_update a1) w \<Longrightarrow> snd (model_update api a1 w) = w \<and> is_error (fst (model_update api a1 w)) \<and> is_envelope (fst (model_update api a1 w))"
  by (auto simp: model_update_def env_simps)

lemma rejects_model_delete:
  "fails_validation (T_model_delete a1 a2) w \<Longrightarrow> snd (model_delete api a1 a2 w) = w \<and> is_error (fst (model_delete api a1 a2 w)) \<and> is_envelope (fst (model_delete api a1 a2 w))"
  by (auto simp: model_delete_def env_simps)

lemma rejects_model_instance_get:
  "fails_validation (T_model_instance_get a1 a2) w \<Longrightarrow> snd (model_instance_get api a1 a2 w) = w \<and> is_error (fst (model_instance_get api a1 a2 w)) \<and> is_envelope (fst (model_instance_get api a1 a2 w))"
  by (auto simp: model_instance_get_def env_simps)

lemma rejects_model_instance_create:
  "fails_validation (T_model_instance_create a1 a2 a3) w \<Longrightarrow> snd (model_instance_create api a1 a2 a3 w) = w \<and> is_error (fst (model_instance_create api a1 a2 a3 w)) \<and> is_envelope (fst (model_instance_create api a1 a2 a3 w))"
  by (auto simp: model_instance_create_def env_simps)

lemma rejects_model_instance_update:
  "fails_validation (T_model_instance_update a1) w \<Longrightarrow> snd (model_instance_update api a1 w) = w \<and> is_error (fst (model_instance_update api a1 w)) \<and> is_envelope (fst (model_instance_update api a1 w))"
  by (auto simp: model_instance_update_def env_simps)

lemma rejects_model_instance_delete:
  "fails_validation (T_model_instance_delete a1 a2) w \<Longrightarrow> snd (model_instance_delete api a1 a2 w) = w \<and> is_error (fst (model_instance_delete api a1 a2 w)) \<and> is_envelope (fst (model_instance_delete api a1 a2 w))"
  by (auto simp: model_instance_delete_def env_simps)

lemma rejects_model_instance_version_create:
  "fails_validation (T_model_instance_version_create a1 a2 a3 a4 a5) w \<Longrightarrow> snd (model_instance_version_create api a1 a2 a3 a4 a5 w) = w \<and> is_error (fst (model_instance_version_create api a1 a2 a3 a4 a5 w)) \<and> is_envelope (fst (model_instance_version_create api a1 a2 a3 a4 a5 w))"
  by (auto simp: model_instance_version_create_def env_simps)

lemma rejects_model_instance_version_download:
  "fails_validation (T_model_instance_version_download a1 a2 a3 a4 a5) w \<Longrightarrow> snd (model_instance_version_download api a1 a2 a3 a4 a5 w) = w \<and> is_error (fst (model_instance_version_download api a1 a2 a3 a4 a5 w)) \<and> is_envelope (fst (model_instance_version_download api a1 a2 a3 a4 a5 w))"
  by (auto simp: model_instance_version_download_def env_simps)

lemma rejects_model_instance_version_files:
  "fails_validation (T_model_instance_version_files a1 a2 a3 a4) w \<Longrightarrow> snd (model_instance_version_files api a1 a2 a3 a4 w) = w \<and> is_error (fst (model_instance_version_files api a1 a2 a3 a4 w)) \<and> is_envelope (fst (model_instance_version_files api a1 a2 a3 a4 w))"
  by (auto simp: model_instance_version_files_def env_simps)

lemma rejects_model_instance_version_delete:
  "fails_validation (T_model_instance_version_delete a1 a2) w \<Longrightarrow> snd (model_instance_version_delete api a1 a2 w) = w \<and> is_error (fst (model_instance_version_delete api a1 a2 w)) \<and> is_envelope (fst (model_instance_version_delete api a1 a2 w))"
  by (auto simp: model_instance_version_delete_def env_simps)

lemmas rejects_adapters = rejects_dataset_create rejects_dataset_initialize rejects_dataset_create_version rejects_kernel_list_files rejects_kernel_initialize rejects_kernel_push rejects_kernel_pull rejects_kernel_output rejects_kernel_status rejects_model_get rejects_model_create rejects_model_update rejects_model_delete rejects_model_instance_get rejects_model_instance_create rejects_model_instance_update rejects_model_instance_delete rejects_model_instance_version_create rejects_model_instance_version_download rejects_model_instance_version_files rejects_model_instance_version_delete

section \<open>What an adapter returns when the delegate raises\<close>










































section \<open>What an adapter returns for a response it can use\<close>









































section \<open>The same facts for every tool call\<close>


lemma run_rejects:
  "fails_validation c w \<Longrightarrow>
     snd (run api c w) = w \<and> is_error (fst (run api c w)) \<and> is_envelope (fst (run api c w))"
  by (cases c) (simp_all add: rejects_adapters)




section \<open>The error field of a response\<close>













section \<open>The adapters that create their folder\<close>

lemma makedirs_isdir: "makedirs p w = (Inr u, w') \<Longrightarrow> isdir w' p"
  using self_in_ancestors[of p]
  by (auto simp: makedirs_def isdir_def split: if_splits)

lemma makedirs_unless_dir_isdir: "makedirs_unless_dir p w = (Inr u, w') \<Longrightarrow> isdir w' p"
  by (auto simp: makedirs_unless_dir_def dest: makedirs_isdir split: if_splits)

lemma makedirs_log: "w_log (snd (makedirs p w)) = w_log w"
  by (simp add: makedirs_def)

lemma makedirs_unless_dir_log: "w_log (snd (makedirs_unless_dir p w)) = w_log w"
  by (simp add: makedirs_unless_dir_def makedirs_log)

lemma try_call_log:
  assumes "\<And>r w1. w_log (snd (body r w1)) = w_log w1"
  shows "w_log (snd (try_call api d c h body w)) = w_log w @ [(d, c)]"
proof -
  obtain x w' where a: "api c w = (x, w')" by (cases "api c w")
  show ?thesis
  proof (cases x)
    case (Inl e)
    with a show ?thesis by (simp add: try_call_def call_api_def)
  next
    case (Inr r)
    obtain y w2 where b: "body r (w'\<lparr>w_log := w_log w @ [(d, c)]\<rparr>) = (y, w2)"
      by (cases "body r (w'\<lparr>w_log := w_log w @ [(d, c)]\<rparr>)")
    from assms[of r "w'\<lparr>w_log := w_log w @ [(d, c)]\<rparr>"] b
    have "w_log w2 = w_log w @ [(d, c)]" by simp
    with a Inr b show ?thesis by (cases y) (simp_all add: try_call_def call_api_def)
  qed
qed

lemma try_io_call_log:
  assumes "fst (io w) = Inr ()" "w_log (snd (io w)) = w_log w"
      and "\<And>r w1. w_log (snd (body r w1)) = w_log w1"
  shows "w_log (snd (try_io_call io api d c h body w)) = w_log w @ [(d, c)]"
proof (cases "io w")
  case (Pair x w1)
  with assms(1,2) have "x = Inr ()" "w_log w1 = w_log w" by simp_all
  with Pair try_call_log[of body api d c h w1, OF assms(3)] show ?thesis
    by (simp add: try_io_call_def)
qed

lemma save_metadata_log: "w_log (snd (save_metadata p f env r w1)) = w_log w1"
  by (simp add: save_metadata_def write_json_def put_file_def Let_def
      split: sum.splits option.splits prod.splits)

lemma creates_kernel_pull:
  assumes "created_folder (T_kernel_pull a1 a2 a3 a4) w = Some f" "\<not> fails_validation (T_kernel_pull a1 a2 a3 a4) w" "fst (pre_io (T_kernel_pull a1 a2 a3 a4) w) = Inr ()"
  shows "isdir (snd (pre_io (T_kernel_pull a1 a2 a3 a4) w)) f \<and> (\<exists>cl. w_log (snd (kernel_pull api a1 a2 a3 a4 w)) = w_log w @ [(Executor, cl)])"
proof -
  have d: "isdir (snd (pre_io (T_kernel_pull a1 a2 a3 a4) w)) f"
    using assms(1,3) by (cases "pre_io (T_kernel_pull a1 a2 a3 a4) w") (auto dest: makedirs_isdir makedirs_unless_dir_isdir)
  have l: "\<exists>cl. w_log (snd (kernel_pull api a1 a2 a3 a4 w)) = w_log w @ [(Executor, cl)]"
    using assms(2,3) unfolding kernel_pull_def Let_def
    by (auto intro!: exI try_io_call_log simp: makedirs_log makedirs_unless_dir_log save_metadata_log pure_body_def split: sum.splits if_splits)
  from d l show ?thesis by simp
qed

lemma creates_kernel_output:
  assumes "created_folder (T_kernel_output a1 a2 a3 a4) w = Some f" "\<not> fails_validation (T_kernel_output a1 a2 a3 a4) w" "fst (pre_io (T_kernel_output a1 a2 a3 a4) w) = Inr ()"
  shows "isdir (snd (pre_io (T_kernel_output a1 a2 a3 a4) w)) f \<and> (\<exists>cl. w_log (snd (kernel_output api a1 a2 a3 a4 w)) = w_log w @ [(Executor, cl)])"
proof -
  have d: "isdir (snd (pre_io (T_kernel_output a1 a2 a3 a4) w)) f"
    using assms(1,3) by (cases "pre_io (T_kernel_output a1 a2 a3 a4) w") (auto dest: makedirs_isdir makedirs_unless_dir_isdir)
  have l: "\<exists>cl. w_log (snd (kernel_output api a1 a2 a3 a4 w)) = w_log w @ [(Executor, cl)]"
    using assms(2,3) unfolding kernel_output_def Let_def
    by (auto intro!: exI try_io_call_log simp: makedirs_log makedirs_unless_dir_log save_metadata_log pure_body_def split: sum.splits if_splits)
  from d l show ?thesis by simp
qed

lemma creates_model_get:
  assumes "created_folder (T_model_get a1 a2) w = Some f" "\<not> fails_validation (T_model_get a1 a2) w" "fst (pre_io (T_model_get a1 a2) w) = Inr ()"
  shows "isdir (snd (pre_io (T_model_get a1 a2) w)) f \<and> (\<exists>cl. w_log (snd (model_get api a1 a2 w)) = w_log w @ [(Executor, cl)])"
proof -
  have d: "isdir (snd (pre_io (T_model_get a1 a2) w)) f"
    using assms(1,3) by (cases "pre_io (T_model_get a1 a2) w") (auto dest: makedirs_isdir makedirs_unless_dir_isdir)
  have l: "\<exists>cl. w_log (snd (model_get api a1 a2 w)) = w_log w @ [(Executor, cl)]"
    using assms(2,3) unfolding model_get_def Let_def
    by (auto intro!: exI try_io_call_log simp: makedirs_log makedirs_unless_dir_log save_metadata_log pure_body_def split: sum.splits if_splits)
  from d l show ?thesis by simp
qed

lemma creates_model_initialize:
  assumes "created_folder (T_model_initialize a1) w = Some f" "\<not> fails_validation (T_model_initialize a1) w" "fst (pre_io (T_model_initialize a1) w) = Inr ()"
  shows "isdir (snd (pre_io (T_model_initialize a1) w)) f \<and> (\<exists>cl. w_log (snd (model_initialize api a1 w)) = w_log w @ [(Executor, cl)])"
proof -
  have d: "isdir (snd (pre_io (T_model_initialize a1) w)) f"
    using assms(1,3) by (cases "pre_io (T_model_initialize a1) w") (auto dest: makedirs_isdir makedirs_unless_dir_isdir)
  have l: "\<exists>cl. w_log (snd (model_initialize api a1 w)) = w_log w @ [(Executor, cl)]"
    using assms(2,3) unfolding model_initialize_def Let_def
    by (auto intro!: exI try_io_call_log simp: makedirs_log makedirs_unless_dir_log save_metadata_log pure_body_def split: sum.splits if_splits)
  from d l show ?thesis by simp
qed

lemma creates_model_instance_get:
  assumes "created_folder (T_model_instance_get a1 a2) w = Some f" "\<not> fails_validation (T_model_instance_get a1 a2) w" "fst (pre_io (T_model_instance_get a1 a2) w) = Inr ()"
  shows "isdir (snd (pre_io (T_model_instance_get a1 a2) w)) f \<and> (\<exists>cl. w_log (snd (model_instance_get api a1 a2 w)) = w_log w @ [(Executor, cl)])"
proof -
  have d: "isdir (snd (pre_io (T_model_instance_get a1 a2) w)) f"
    using assms(1,3) by (cases "pre_io (T_model_instance_get a1 a2) w") (auto dest: makedirs_isdir makedirs_unless_dir_isdir)
  have l: "\<exists>cl. w_log (snd (model_instance_get api a1 a2 w)) = w_log w @ [(Executor, cl)]"
    using assms(2,3) unfolding model_instance_get_def Let_def
    by (auto intro!: exI try_io_call_log simp: makedirs_log makedirs_unless_dir_log save_metadata_log pure_body_def split: sum.splits if_splits)
  from d l show ?thesis by simp
qed

lemma creates_model_instance_initialize:
  assumes "created_folder (T_model_instance_initialize a1) w = Some f" "\<not> fails_validation (T_model_instance_initialize a1) w" "fst (pre_io (T_model_instance_initialize a1) w) = Inr ()"
  shows "isdir (snd (pre_io (T_model_instance_initialize a1) w)) f \<and> (\<exists>cl. w_log (snd (model_instance_initialize api a1 w)) = w_log w @ [(Executor, cl)])"
proof -
  have d: "isdir (snd (pre_io (T_model_instance_initialize a1) w)) f"
    using assms(1,3) by (cases "pre_io (T_model_instance_initialize a1) w") (auto dest: makedirs_isdir makedirs_unless_dir_isdir)
  have l: "\<exists>cl. w_log (snd (model_instance_initialize api a1 w)) = w_log w @ [(Executor, cl)]"
    using assms(2,3) unfolding model_instance_initialize_def Let_def
    by (auto intro!: exI try_io_call_log simp: makedirs_log makedirs_unless_dir_log save_metadata_log pure_body_def split: sum.splits if_splits)
  from d l show ?thesis by simp
qed

lemma creates_model_instance_version_download:
  assumes "created_folder (T_model_instance_version_download a1 a2 a3 a4 a5) w = Some f" "\<not> fails_validation (T_model_instance_version_download a1 a2 a3 a4 a5) w" "fst (pre_io (T_model_instance_version_download a1 a2 a3 a4 a5) w) = Inr ()"
  shows "isdir (snd (pre_io (T_model_instance_version_download a1 a2 a3 a4 a5) w)) f \<and> (\<exists>cl. w_log (snd (model_instance_version_download api a1 a2 a3 a4 a5 w)) = w_log w @ [(Executor, cl)])"
proof -
  have d: "isdir (snd (pre_io (T_model_instance_version_download a1 a2 a3 a4 a5) w)) f"
    using assms(1,3) by (cases "pre_io (T_model_instance_version_download a1 a2 a3 a4 a5) w") (auto dest: makedirs_isdir makedirs_unless_dir_isdir)
  have l: "\<exists>cl. w_log (snd (model_instance_version_download api a1 a2 a3 a4 a5 w)) = w_log w @ [(Executor, cl)]"
    using assms(2,3) unfolding model_instance_version_download_def Let_def
    by (auto intro!: exI try_io_call_log simp: makedirs_log makedirs_unless_dir_log save_metadata_log pure_body_def split: sum.splits if_splits)
  from d l show ?thesis by simp
qed

lemmas creates_adapters = creates_kernel_pull creates_kernel_output creates_model_get creates_model_initialize creates_model_instance_get creates_model_instance_initialize creates_model_instance_version_download

section \<open>Segments and the kernel pattern\<close>







section \<open>More facts for every tool call\<close>


lemma run_required_folder:
  "required_folder c = Some f \<Longrightarrow> \<not> isdir w f \<Longrightarrow> fails_validation c w"
  by (cases c) auto


lemma run_creates:
  "created_folder c w = Some f \<Longrightarrow> \<not> fails_validation c w \<Longrightarrow> fst (pre_io c w) = Inr () \<Longrightarrow>
     isdir (snd (pre_io c w)) f \<and> (\<exists>cl. w_log (snd (run api c w)) = w_log w @ [(Executor, cl)])"
  by (cases c; simp only: run.simps; ((rule creates_adapters; assumption) | simp))


section \<open>Saving the metadata of a model\<close>

lemma open_w_error_log: "open_w_error (w\<lparr>w_log := l\<rparr>) p = open_w_error w p"
  by (simp add: open_w_error_def isdir_def)

lemma put_file_content: "\<exists>m. map_of (w_files (put_file f c w)) f = Some (c, m)"
  by (simp add: put_file_def Let_def update_conv')

lemma put_file_log: "w_log (put_file f c w) = w_log w"
  by (simp add: put_file_def Let_def)

lemma makedirs_ancestors:
  assumes "makedirs p w = (Inr u, w1)" "q \<in> set (ancestors p)"
  shows "isdir w1 q"
  using assms by (auto simp: makedirs_def isdir_def split: if_splits)

lemma save_metadata_writes:
  assumes "makedirs p w = (Inr (), w1)"
      and "api cl w1 = (Inr r, w2)"
      and "to_dict_or_vars r = Inr d" "json_ok (PDict d)"
      and "open_w_error w2 (path_join p n) = None"
  shows "try_io_call (makedirs p) api Executor cl h (save_metadata p n env) w
           = (let w3 = put_file (path_join p n) (JsonText (PDict d))
                         (w2\<lparr>w_log := w_log w @ [(Executor, cl)]\<rparr>)
              in (env d (abspath w3 (path_join p n)), w3))"
proof -
  have log1: "w_log w1 = w_log w" using makedirs_log[of p w] assms(1) by simp
  have "save_metadata p n env r (w2\<lparr>w_log := w_log w @ [(Executor, cl)]\<rparr>)
          = (let w3 = put_file (path_join p n) (JsonText (PDict d))
                         (w2\<lparr>w_log := w_log w @ [(Executor, cl)]\<rparr>)
              in (Inr (env d (abspath w3 (path_join p n))), w3))"
    using assms(3,4,5) by (simp add: save_metadata_def write_json_def Let_def open_w_error_log)
  thus ?thesis
    using assms(1,2) by (simp add: try_io_call_def try_call_def call_api_def log1 Let_def)
qed


section \<open>The adapters' own file operations\<close>




lemma makedirs_creates:
  assumes "p \<noteq> []" "\<forall>q \<in> set (ancestors p). \<not> isfile w q"
  shows "\<exists>w1. makedirs p w = (Inr (), w1) \<and> isdir w1 p"
  using makedirs_ok[OF assms] makedirs_isdir[of p w "()"] by auto

lemma makedirs_unless_dir_creates:
  assumes "p \<noteq> []" "\<forall>q \<in> set (ancestors p). \<not> isfile w q"
  shows "\<exists>w1. makedirs_unless_dir p w = (Inr (), w1) \<and> isdir w1 p"
  using makedirs_creates[OF assms] by (auto simp: makedirs_unless_dir_def)

lemma try_call_keeps_dir:
  assumes "keeps_dirs api" "isdir w f"
      and "\<And>r w2. isdir w2 f \<Longrightarrow> isdir (snd (body r w2)) f"
  shows "isdir (snd (try_call api d c h body w)) f"
proof -
  obtain x w' where a: "api c w = (x, w')" by (cases "api c w")
  let ?w = "w'\<lparr>w_log := w_log w @ [(d, c)]\<rparr>"
  from assms(1,2) a have "isdir w' f" by (metis keeps_dirs_def snd_conv)
  hence k: "isdir ?w f" by simp
  show ?thesis
  proof (cases x)
    case (Inl e)
    with a k show ?thesis by (simp add: try_call_def call_api_def)
  next
    case (Inr r)
    obtain y w2 where b: "body r ?w = (y, w2)" by (cases "body r ?w")
    from assms(3)[OF k, of r] b have "isdir w2 f" by simp
    with a Inr b show ?thesis by (cases y) (simp_all add: try_call_def call_api_def)
  qed
qed

lemma try_io_call_keeps_dir:
  assumes "\<exists>w1. io w = (Inr (), w1) \<and> isdir w1 f" "keeps_dirs api"
      and "\<And>r w2. isdir w2 f \<Longrightarrow> isdir (snd (body r w2)) f"
  shows "isdir (snd (try_io_call io api d c h body w)) f"
proof -
  from assms(1) obtain w1 where a: "io w = (Inr (), w1)" "isdir w1 f" by blast
  have "isdir (snd (try_call api d c h body w1)) f"
    using assms(2) a(2) assms(3) by (rule try_call_keeps_dir)
  with a(1) show ?thesis by (simp add: try_io_call_def)
qed

lemma put_file_dirs [simp]: "isdir (put_file p c w) f = isdir w f"
  by (simp add: put_file_def isdir_def Let_def)

lemma save_metadata_dirs: "isdir w1 f \<Longrightarrow> isdir (snd (save_metadata p n env r w1)) f"
  by (simp add: save_metadata_def write_json_def Let_def
      split: sum.splits option.splits prod.splits)











lemma keeps_kernel_pull:
  assumes "created_folder (T_kernel_pull a1 a2 a3 a4) w = Some f" "\<not> fails_validation (T_kernel_pull a1 a2 a3 a4) w"
    "f \<noteq> []" "\<forall>q \<in> set (ancestors f). \<not> isfile w q" "keeps_dirs api"
  shows "isdir (snd (kernel_pull api a1 a2 a3 a4 w)) f"
  using assms(1,2) unfolding kernel_pull_def Let_def
  apply simp
  apply (rule try_io_call_keeps_dir[OF _ assms(5)])
  using assms(1,3,4) apply (auto intro: makedirs_creates makedirs_unless_dir_creates)[1]
  apply (auto simp: pure_body_def Let_def intro: save_metadata_dirs split: sum.splits if_splits)
  done

lemma keeps_kernel_output:
  assumes "created_folder (T_kernel_output a1 a2 a3 a4) w = Some f" "\<not> fails_validation (T_kernel_output a1 a2 a3 a4) w"
    "f \<noteq> []" "\<forall>q \<in> set (ancestors f). \<not> isfile w q" "keeps_dirs api"
  shows "isdir (snd (kernel_output api a1 a2 a3 a4 w)) f"
  using assms(1,2) unfolding kernel_output_def Let_def
  apply simp
  apply (rule try_io_call_keeps_dir[OF _ assms(5)])
  using assms(1,3,4) apply (auto intro: makedirs_creates makedirs_unless_dir_creates)[1]
  apply (auto simp: pure_body_def Let_def intro: save_metadata_dirs split: sum.splits if_splits)
  done

lemma keeps_model_get:
  assumes "created_folder (T_model_get a1 a2) w = Some f" "\<not> fails_validation (T_model_get a1 a2) w"
    "f \<noteq> []" "\<forall>q \<in> set (ancestors f). \<not> isfile w q" "keeps_dirs api"
  shows "isdir (snd (model_get api a1 a2 w)) f"
  using assms(1,2) unfolding model_get_def Let_def
  apply simp
  apply (rule try_io_call_keeps_dir[OF _ assms(5)])
  using assms(1,3,4) apply (auto intro: makedirs_creates makedirs_unless_dir_creates)[1]
  apply (auto simp: pure_body_def Let_def intro: save_metadata_dirs split: sum.splits if_splits)
  done

lemma keeps_model_initialize:
  assumes "created_folder (T_model_initialize a1) w = Some f" "\<not> fails_validation (T_model_initialize a1) w"
    "f \<noteq> []" "\<forall>q \<in> set (ancestors f). \<not> isfile w q" "keeps_dirs api"
  shows "isdir (snd (model_initialize api a1 w)) f"
  using assms(1,2) unfolding model_initialize_def Let_def
  apply simp
  apply (rule try_io_call_keeps_dir[OF _ assms(5)])
  using assms(1,3,4) apply (auto intro: makedirs_creates makedirs_unless_dir_creates)[1]
  apply (auto simp: pure_body_def Let_def intro: save_metadata_dirs split: sum.splits if_splits)
  done

lemma keeps_model_instance_get:
  assumes "created_folder (T_model_instance_get a1 a2) w = Some f" "\<not> fails_validation (T_model_instance_get a1 a2) w"
    "f \<noteq> []" "\<forall>q \<in> set (ancestors f). \<not> isfile w q" "keeps_dirs api"
  shows "isdir (snd (model_instance_get api a1 a2 w)) f"
  using assms(1,2) unfolding model_instance_get_def Let_def
  apply simp
  apply (rule try_io_call_keeps_dir[OF _ assms(5)])
  using assms(1,3,4) apply (auto intro: makedirs_creates makedirs_unless_dir_creates)[1]
  apply (auto simp: pure_body_def Let_def intro: save_metadata_dirs split: sum.splits if_splits)
  done

lemma keeps_model_instance_initialize:
  assumes "created_folder (T_model_instance_initialize a1) w = Some f" "\<not> fails_validation (T_model_instance_initialize a1) w"
    "f \<noteq> []" "\<forall>q \<in> set (ancestors f). \<not> isfile w q" "keeps_dirs api"
  shows "isdir (snd (model_instance_initialize api a1 w)) f"
  using assms(1,2) unfolding model_instance_initialize_def Let_def
  apply simp
  apply (rule try_io_call_keeps_dir[OF _ assms(5)])
  using assms(1,3,4) apply (auto intro: makedirs_creates makedirs_unless_dir_creates)[1]
  apply (auto simp: pure_body_def Let_def intro: save_metadata_dirs split: sum.splits if_splits)
  done

lemma keeps_model_instance_version_download:
  assumes "created_folder (T_model_instance_version_download a1 a2 a3 a4 a5) w = Some f" "\<not> fails_validation (T_model_instance_version_download a1 a2 a3 a4 a5) w"
    "f \<noteq> []" "\<forall>q \<in> set (ancestors f). \<not> isfile w q" "keeps_dirs api"
  shows "isdir (snd (model_instance_version_download api a1 a2 a3 a4 a5 w)) f"
  using assms(1,2) unfolding model_instance_version_download_def Let_def
  apply simp
  apply (rule try_io_call_keeps_dir[OF _ assms(5)])
  using assms(1,3,4) apply (auto intro: makedirs_creates makedirs_unless_dir_creates)[1]
  apply (auto simp: pure_body_def Let_def intro: save_metadata_dirs split: sum.splits if_splits)
  done

lemmas keeps_adapters = keeps_kernel_pull keeps_kernel_output keeps_model_get keeps_model_initialize keeps_model_instance_get keeps_model_instance_initialize keeps_model_instance_version_download

lemma pre_io_creates:
  "created_folder c w = Some f \<Longrightarrow> f \<noteq> [] \<Longrightarrow> \<forall>q \<in> set (ancestors f). \<not> isfile w q \<Longrightarrow>
     fst (pre_io c w) = Inr ()"
  using makedirs_creates[of f w] makedirs_unless_dir_creates[of f w]
  by (cases c) auto


lemma run_keeps:
  "created_folder c w = Some f \<Longrightarrow> \<not> fails_validation c w \<Longrightarrow> f \<noteq> [] \<Longrightarrow>
   \<forall>q \<in> set (ancestors f). \<not> isfile w q \<Longrightarrow> keeps_dirs api \<Longrightarrow>
     isdir (snd (run api c w)) f"
  by (cases c; simp only: run.simps; ((rule keeps_adapters; assumption) | simp))

section \<open>The claims\<close>

text \<open>
  Claim C8 (credential bootstrap). When \<open>KAGGLE_USERNAME\<close> and \<open>KAGGLE_API_KEY\<close> are both
  set and non-empty, \<open>init_kaggle\<close> returns normally and leaves, at
  \<open>~/.kaggle/kaggle.json\<close>, a file holding the JSON text of
  \<open>{"username": u, "key": k}\<close> with mode \<open>0o600\<close>, whose permission bits are owner
  read/write and nothing else. When either variable is missing or empty it raises
  \<open>ValueError\<close> and the file system is left as it was. The first half is about a file
  system that lets the three calls through (\<open>bootstrap_io_ok\<close>): nothing on the way to
  \<open>~/.kaggle\<close> is a regular file and \<open>kaggle.json\<close> is not a directory; otherwise
  \<open>os.makedirs\<close> or \<open>open\<close> raises an \<open>OSError\<close> of its own.
\<close>

theorem init_kaggle_bootstrap:
  "(environ ''KAGGLE_USERNAME'' = Some u \<and> u \<noteq> [] \<and> environ ''KAGGLE_API_KEY'' = Some k \<and> k \<noteq> []
      \<and> bootstrap_io_ok w \<longrightarrow>
      (\<exists>w' m. init_kaggle environ w = (Inr (), w')
         \<and> map_of (w_files w') (kaggle_path w)
              = Some (JsonText (PDict [(''username'', PStr u), (''key'', PStr k)]), m)
         \<and> m = 384 \<and> owner_rw_only m))
   \<and> (environ ''KAGGLE_USERNAME'' \<in> {None, Some []} \<or> environ ''KAGGLE_API_KEY'' \<in> {None, Some []} \<longrightarrow>
        init_kaggle environ w =
          (Inl (Exn ''ValueError'' ''Missing KAGGLE_USERNAME or KAGGLE_KEY environment variables''), w))"
proof (intro conjI impI)
  assume a: "environ ''KAGGLE_USERNAME'' = Some u \<and> u \<noteq> [] \<and> environ ''KAGGLE_API_KEY'' = Some k \<and> k \<noteq> []
      \<and> bootstrap_io_ok w"
  have "owner_rw_only 384" by (simp add: owner_rw_only_def)
  with init_kaggle_writes[of environ u k w] a
  show "\<exists>w' m. init_kaggle environ w = (Inr (), w')
         \<and> map_of (w_files w') (kaggle_path w)
              = Some (JsonText (PDict [(''username'', PStr u), (''key'', PStr k)]), m)
         \<and> m = 384 \<and> owner_rw_only m"
    by blast
next
  assume "environ ''KAGGLE_USERNAME'' \<in> {None, Some []} \<or> environ ''KAGGLE_API_KEY'' \<in> {None, Some []}"
  thus "init_kaggle environ w =
          (Inl (Exn ''ValueError'' ''Missing KAGGLE_USERNAME or KAGGLE_KEY environment variables''), w)"
    by (rule init_kaggle_missing)
qed

theorem init_kaggle_bootstrap_witness:
  "(\<exists>w'. init_kaggle creds_env home_world = (Inr (), w')
      \<and> map_of (w_files w') ''/home/u/.kaggle/kaggle.json''
           = Some (JsonText (PDict [(''username'', PStr ''alice''), (''key'', PStr ''s3cret'')]), 384))
   \<and> init_kaggle (creds_env(''KAGGLE_API_KEY'' := None)) home_world =
       (Inl (Exn ''ValueError'' ''Missing KAGGLE_USERNAME or KAGGLE_KEY environment variables''), home_world)"
proof -
  have p: "kaggle_path home_world = ''/home/u/.kaggle/kaggle.json''"
    by (simp add: kaggle_path_def kaggle_dir_def home_world_def path_join_def rstrip_slash_def)
  have io: "bootstrap_io_ok home_world"
    by (simp add: bootstrap_io_ok_def kaggle_path_def kaggle_dir_def home_world_def path_join_def
        rstrip_slash_def ancestors_def isfile_def isdir_def)
  have e: "creds_env ''KAGGLE_USERNAME'' = Some ''alice''" "creds_env ''KAGGLE_API_KEY'' = Some ''s3cret''"
    by (simp_all add: creds_env_def)
  from init_kaggle_bootstrap [of creds_env "''alice''" "''s3cret''" home_world] e io p
  have a: "\<exists>w'. init_kaggle creds_env home_world = (Inr (), w')
      \<and> map_of (w_files w') ''/home/u/.kaggle/kaggle.json''
           = Some (JsonText (PDict [(''username'', PStr ''alice''), (''key'', PStr ''s3cret'')]), 384)"
    by auto
  from init_kaggle_bootstrap [of "creds_env(''KAGGLE_API_KEY'' := None)" u k home_world]
  have b: "init_kaggle (creds_env(''KAGGLE_API_KEY'' := None)) home_world =
       (Inl (Exn ''ValueError'' ''Missing KAGGLE_USERNAME or KAGGLE_KEY environment variables''), home_world)"
    by simp
  from a b show ?thesis by blast
qed

text \<open>
  Claim C4 (validation failures), as the code has it. The local validation of an
  adapter is the set of its early \<open>return\<close> conditions (\<open>fails_validation\<close>): the
  identifier is empty or has no slash (for \<open>kernel_list_files\<close>: is not two non-empty
  segments), the folder is empty or not an existing directory for the adapters that
  require one, the metadata file is missing from the folder, or the confirmation of a
  delete is not given. Whatever the delegate is, a tool call for which one of them holds
  returns an envelope with status \<open>"error"\<close> and leaves the world as it was: the log of
  delegate calls and the file system are unchanged. For the three delete adapters this
  happens with \<open>confirmation = False\<close> for every identifier.
\<close>

theorem validation_failure_short_circuits:
  "(fails_validation c w \<longrightarrow> is_error (fst (run api c w)) \<and> snd (run api c w) = w)
   \<and> is_error (fst (run api (T_model_delete m False) w))
   \<and> snd (run api (T_model_delete m False) w) = w
   \<and> is_error (fst (run api (T_model_instance_delete m False) w))
   \<and> snd (run api (T_model_instance_delete m False) w) = w
   \<and> is_error (fst (run api (T_model_instance_version_delete m False) w))
   \<and> snd (run api (T_model_instance_version_delete m False) w) = w"
proof -
  have a: "fails_validation c w \<longrightarrow> is_error (fst (run api c w)) \<and> snd (run api c w) = w"
    using run_rejects[of c w api] by simp
  have b: "fails_validation (T_model_delete m False) w"
    "fails_validation (T_model_instance_delete m False) w"
    "fails_validation (T_model_instance_version_delete m False) w"
    by simp_all
  show ?thesis
    using a run_rejects[OF b(1), of api] run_rejects[OF b(2), of api] run_rejects[OF b(3), of api]
    by simp
qed

text \<open>The kernel folder exists but holds no \<open>kernel-metadata.json\<close>: \<open>kernel_push\<close>
  answers with an error and the delegate, which would raise, is never called.\<close>

theorem validation_failure_short_circuits_witness:
  "fails_validation (T_kernel_push ''/home/u'' None) home_world
   \<and> is_error (fst (run (api_raise (Exn ''RuntimeError'' ''called'')) (T_kernel_push ''/home/u'' None) home_world))
   \<and> snd (run (api_raise (Exn ''RuntimeError'' ''called'')) (T_kernel_push ''/home/u'' None) home_world)
       = home_world"
proof -
  have f: "fails_validation (T_kernel_push ''/home/u'' None) home_world"
    by (simp add: home_world_def isdir_def exists_def isfile_def path_join_def)
  from validation_failure_short_circuits
         [of "T_kernel_push ''/home/u'' None" home_world "api_raise (Exn ''RuntimeError'' ''called'')"] f
  show ?thesis by simp
qed

text \<open>
  The claim as it was written counts as malformed an identifier that has not the
  expected number of segments, and as a failure a folder that does not exist. The
  code does not: a confirmed \<open>model_instance_delete\<close> of \<open>a/b\<close>, two segments where
  \<open>owner/model/framework/instance-slug\<close> has four, calls the delegate and reports
  success; \<open>kernel_output\<close> into a folder that does not exist creates the folder and
  calls the delegate.
\<close>

theorem model_instance_delete_accepts_two_segments:
  "split_slash ''a/b'' = [''a'', ''b'']
   \<and> w_log (snd (run (api_const (sdk_object [])) (T_model_instance_delete ''a/b'' True)
                   home_world))
       = [(Executor, Api ''model_instance_delete'' [PStr ''a/b''] [(''yes'', PBool True)])]
   \<and> is_success (fst (run (api_const (sdk_object [])) (T_model_instance_delete ''a/b'' True)
                   home_world))
   \<and> \<not> isdir home_world ''/home/u/out''
   \<and> w_dirs (snd (run (api_const PNone) (T_kernel_output ''u/k'' ''/home/u/out'' False True)
                    home_world))
       = [''/home'', ''/home/u'', ''/home/u/out'']
   \<and> w_log (snd (run (api_const PNone) (T_kernel_output ''u/k'' ''/home/u/out'' False True)
                   home_world))
       = [(Executor, Api ''kernels_output'' [PStr ''u/k'', PStr ''/home/u/out'']
                      [(''force'', PBool False), (''quiet'', PBool True)])]"
proof -
  have s: "split_slash ''a/b'' = [''a'', ''b'']" by code_simp
  have a: "ancestors ''/home/u/out'' = [''/home'', ''/home/u'', ''/home/u/out'']" by code_simp
  show ?thesis
    unfolding s
    by (simp add: model_instance_delete_def kernel_output_def try_io_call_def try_call_def
        call_api_def makedirs_unless_dir_def makedirs_def a isfile_def isdir_def home_world_def
        api_const_def sdk_object_def pure_body_def bind_exn_def deleted_result_def dict_get_def
        is_success_def status_of_def Let_def)
qed










text \<open>
  Claim C9 (dispatch of the delegate call). The adapters hand their delegate call to
  \<open>loop.run_in_executor\<close>, which the model records as \<open>Executor\<close> in the log.
  \<open>dataset_download_files\<close> does not: for every input and every delegate its one
  delegate call is made in the adapter body itself (\<open>Direct\<close>), although it is an
  \<open>async def\<close> like its neighbour \<open>dataset_download_file\<close>, whose call is dispatched.
\<close>

theorem dataset_download_files_calls_directly:
  "w_log (snd (dataset_download_files api dataset path force quiet licenses w))
     = w_log w @ [(Direct, Api ''dataset_download_files'' [PStr dataset]
                     [(''path'', opt_str path), (''force'', PBool force),
                      (''quiet'', PBool quiet), (''licenses'', licenses)])]
   \<and> w_log (snd (dataset_download_file api dataset file_name path force' quiet' licenses w))
     = w_log w @ [(Executor, Api ''dataset_download_file'' [PStr dataset, PStr file_name]
                     [(''path'', opt_str path), (''force'', force'),
                      (''quiet'', quiet'), (''licenses'', licenses)])]"
  by (simp add: dataset_download_files_def dataset_download_file_def try_call_def call_api_def
      split: prod.splits sum.splits)







text \<open>
  Claim C7 (folders), as the code has it. The adapters that read what the caller put
  in a folder, or let the client write its metadata template there
  (\<open>dataset_create\<close>, \<open>dataset_initialize\<close>, \<open>dataset_create_version\<close>,
  \<open>kernel_initialize\<close>, \<open>kernel_push\<close>, the model and model instance create and
  update adapters, \<open>model_instance_version_create\<close>: \<open>required_folder\<close>) reject a
  folder that is not an existing directory: error envelope, world unchanged, no
  delegate call. The adapters that download into a folder or initialise model metadata
  (\<open>kernel_pull\<close>, \<open>kernel_output\<close>, \<open>model_get\<close>, \<open>model_initialize\<close>,
  \<open>model_instance_get\<close>, \<open>model_instance_initialize\<close>,
  \<open>model_instance_version_download\<close>: \<open>created_folder\<close>) do not: when validation
  passes and nothing on the way to the folder is a file, the adapter creates the folder
  and calls the delegate, once, through the executor; with a delegate that removes no
  directory, the folder is a directory when the adapter returns.
\<close>

theorem missing_folder_rejected_or_created:
  "(required_folder c = Some f \<and> \<not> isdir w f \<longrightarrow>
      is_error (fst (run api c w)) \<and> snd (run api c w) = w)
   \<and> (created_folder c w = Some f \<and> \<not> fails_validation c w
        \<and> f \<noteq> [] \<and> (\<forall>q \<in> set (ancestors f). \<not> isfile w q) \<and> keeps_dirs api \<longrightarrow>
        isdir (snd (run api c w)) f
        \<and> (\<exists>cl. w_log (snd (run api c w)) = w_log w @ [(Executor, cl)]))"
proof (intro conjI impI)
  assume a: "required_folder c = Some f \<and> \<not> isdir w f"
  hence f: "fails_validation c w" by (auto intro: run_required_folder)
  from run_rejects[OF f, of api]
  show "is_error (fst (run api c w))" and "snd (run api c w) = w" by simp_all
next
  assume "created_folder c w = Some f \<and> \<not> fails_validation c w
        \<and> f \<noteq> [] \<and> (\<forall>q \<in> set (ancestors f). \<not> isfile w q) \<and> keeps_dirs api"
  hence a: "created_folder c w = Some f" "\<not> fails_validation c w" "f \<noteq> []"
    "\<forall>q \<in> set (ancestors f). \<not> isfile w q" "keeps_dirs api" by blast+
  from run_keeps[OF a] show "isdir (snd (run api c w)) f" .
  from run_creates[OF a(1,2) pre_io_creates[OF a(1,3,4)], of api]
  show "\<exists>cl. w_log (snd (run api c w)) = w_log w @ [(Executor, cl)]" by simp
qed

text \<open>\<open>dataset_initialize\<close> and \<open>model_initialize\<close> on the folder \<open>/home/u/new\<close>, which
  does not exist.\<close>

theorem missing_folder_rejected_or_created_witness:
  "required_folder (T_dataset_initialize ''/home/u/new'') = Some ''/home/u/new''
   \<and> \<not> isdir home_world ''/home/u/new''
   \<and> is_error (fst (run (api_const PNone) (T_dataset_initialize ''/home/u/new'') home_world))
   \<and> snd (run (api_const PNone) (T_dataset_initialize ''/home/u/new'') home_world) = home_world
   \<and> created_folder (T_model_initialize ''/home/u/new'') home_world = Some ''/home/u/new''
   \<and> \<not> fails_validation (T_model_initialize ''/home/u/new'') home_world
   \<and> \<not> isfile home_world ''/home'' \<and> \<not> isfile home_world ''/home/u''
   \<and> \<not> isfile home_world ''/home/u/new''
   \<and> keeps_dirs (api_const PNone)
   \<and> isdir (snd (run (api_const PNone) (T_model_initialize ''/home/u/new'') home_world))
        ''/home/u/new''
   \<and> (\<exists>cl. w_log (snd (run (api_const PNone) (T_model_initialize ''/home/u/new'') home_world))
             = w_log home_world @ [(Executor, cl)])"
proof -
  let ?f = "''/home/u/new''"
  have an: "ancestors ?f = [''/home'', ''/home/u'', ?f]" by code_simp
  have nd: "\<not> isdir home_world ?f" by (simp add: isdir_def home_world_def)
  have nf: "\<not> isfile home_world ''/home''" "\<not> isfile home_world ''/home/u''"
    "\<not> isfile home_world ?f" by (simp_all add: isfile_def home_world_def)
  have k: "keeps_dirs (api_const PNone)" by (simp add: keeps_dirs_def api_const_def)
  have c1: "required_folder (T_dataset_initialize ?f) = Some ?f \<and> \<not> isdir home_world ?f"
    using nd by simp
  have c2: "created_folder (T_model_initialize ?f) home_world = Some ?f
            \<and> \<not> fails_validation (T_model_initialize ?f) home_world
            \<and> ?f \<noteq> [] \<and> (\<forall>q \<in> set (ancestors ?f). \<not> isfile home_world q)
            \<and> keeps_dirs (api_const PNone)"
    using nf k by (simp add: an)
  note t1 = missing_folder_rejected_or_created
              [of "T_dataset_initialize ?f" ?f home_world "api_const PNone", THEN conjunct1,
               THEN mp, OF c1]
  note t2 = missing_folder_rejected_or_created
              [of "T_model_initialize ?f" ?f home_world "api_const PNone", THEN conjunct2,
               THEN mp, OF c2]
  from t1 t2 nd nf k show ?thesis by simp
qed

text \<open>
  The claim as it was written fails for the second group: \<open>model_instance_initialize\<close>
  on a folder that does not exist creates it, calls the delegate and reports success.
\<close>

theorem model_instance_initialize_creates_folder:
  "\<not> isdir home_world ''/home/u/new''
   \<and> is_success (fst (run (api_const PNone) (T_model_instance_initialize ''/home/u/new'') home_world))
   \<and> isdir (snd (run (api_const PNone) (T_model_instance_initialize ''/home/u/new'') home_world))
        ''/home/u/new''
   \<and> w_log (snd (run (api_const PNone) (T_model_instance_initialize ''/home/u/new'') home_world))
       = [(Executor, Api ''model_instance_initialize'' [PStr ''/home/u/new''] [])]"
proof -
  have a: "ancestors ''/home/u/new'' = [''/home'', ''/home/u'', ''/home/u/new'']" by code_simp
  show ?thesis
    by (simp add: model_instance_initialize_def try_io_call_def try_call_def call_api_def
        makedirs_def a isfile_def isdir_def home_world_def api_const_def pure_body_def
        is_success_def status_of_def)
qed

text \<open>
  Claim C10 (\<open>model_get\<close> and \<open>model_instance_get\<close> write a file), as the code
  has it. When the identifier passes validation, \<open>os.makedirs\<close> of the target
  directory \<open>p\<close> (the current directory when no path is given) goes through, the
  delegate returns a response \<open>r\<close> that has a \<open>to_dict()\<close> or a \<open>__dict__\<close>
  giving a dict \<open>d\<close> that \<open>json.dump\<close> accepts, and the file can be opened for
  writing: the adapter returns a success envelope with \<open>d\<close> under \<open>data\<close>, the
  file \<open>model-metadata.json\<close> (respectively \<open>model-instance-metadata.json\<close>) of
  \<open>p\<close> holds the JSON text of \<open>d\<close> whatever it held before, \<open>p\<close> and all its
  parents are directories once \<open>os.makedirs\<close> is done, and the delegate has been called
  once, through the executor.
\<close>

theorem get_saves_metadata:
  assumes c: "(c, name, n) = (T_model_get i path, ''model_get'', ''model-metadata.json'')
            \<or> (c, name, n) = (T_model_instance_get i path, ''model_instance_get'',
                               ''model-instance-metadata.json'')"
      and v: "\<not> fails_validation c w"
      and p: "p = (case path of None \<Rightarrow> w_cwd w | Some q \<Rightarrow> q)"
      and mk: "makedirs p w = (Inr (), w1)"
      and call: "api (Api name [PStr i] []) w1 = (Inr r, w2)"
      and d: "to_dict_or_vars r = Inr d" "json_ok (PDict d)"
      and op: "open_w_error w2 (path_join p n) = None"
  shows "is_success (fst (run api c w))
       \<and> map_of (fst (run api c w)) ''data'' = Some (PDict d)
       \<and> (\<exists>m. map_of (w_files (snd (run api c w))) (path_join p n)
                 = Some (JsonText (PDict d), m))
       \<and> (\<forall>q \<in> set (ancestors p). isdir w1 q)
       \<and> w_log (snd (run api c w)) = w_log w @ [(Executor, Api name [PStr i] [])]"
proof -
  have dirs: "\<forall>q \<in> set (ancestors p). isdir w1 q"
    using makedirs_ancestors[OF mk] by blast
  note sm = save_metadata_writes[where api = api, OF mk call d op]
  from c show ?thesis
  proof
    assume a: "(c, name, n) = (T_model_get i path, ''model_get'', ''model-metadata.json'')"
    with v have nv: "i \<noteq> []" "CHR ''/'' \<in> set i" by simp_all
    from a nv dirs sm show ?thesis
      unfolding p
      by (simp add: model_get_def Let_def is_success_def status_of_def
          put_file_content put_file_log)
  next
    assume a: "(c, name, n) = (T_model_instance_get i path, ''model_instance_get'',
                               ''model-instance-metadata.json'')"
    with v have nv: "i \<noteq> []" "CHR ''/'' \<in> set i" by simp_all
    from a nv dirs sm show ?thesis
      unfolding p
      by (simp add: model_instance_get_def Let_def is_success_def status_of_def
          put_file_content put_file_log)
  qed
qed

text \<open>\<open>model_get\<close> without a path, in a current directory that already has a
  \<open>model-metadata.json\<close>: the old text is replaced and the mode of the file is kept.\<close>

theorem get_saves_metadata_witness:
  "\<not> fails_validation (T_model_get ''o/m'' None) metadata_world
   \<and> map_of (w_files metadata_world) ''/home/u/model-metadata.json'' = Some (RawText ''old'', 384)
   \<and> makedirs ''/home/u'' metadata_world = (Inr (), metadata_world)
   \<and> api_const (sdk_object [(''slug'', PStr ''m'')]) (Api ''model_get'' [PStr ''o/m''] [])
         metadata_world = (Inr (sdk_object [(''slug'', PStr ''m'')]), metadata_world)
   \<and> to_dict_or_vars (sdk_object [(''slug'', PStr ''m'')]) = Inr [(''slug'', PStr ''m'')]
   \<and> json_ok (PDict [(''slug'', PStr ''m'')])
   \<and> open_w_error metadata_world (path_join ''/home/u'' ''model-metadata.json'') = None
   \<and> is_success (fst (run (api_const (sdk_object [(''slug'', PStr ''m'')]))
                      (T_model_get ''o/m'' None) metadata_world))
   \<and> map_of (fst (run (api_const (sdk_object [(''slug'', PStr ''m'')]))
                      (T_model_get ''o/m'' None) metadata_world)) ''data''
       = Some (PDict [(''slug'', PStr ''m'')])
   \<and> map_of (w_files (snd (run (api_const (sdk_object [(''slug'', PStr ''m'')]))
                      (T_model_get ''o/m'' None) metadata_world)))
         ''/home/u/model-metadata.json''
       = Some (JsonText (PDict [(''slug'', PStr ''m'')]), 384)
   \<and> w_log (snd (run (api_const (sdk_object [(''slug'', PStr ''m'')]))
                      (T_model_get ''o/m'' None) metadata_world))
       = [(Executor, Api ''model_get'' [PStr ''o/m''] [])]"
proof -
  let ?r = "sdk_object [(''slug'', PStr ''m'')]"
  have an: "ancestors ''/home/u'' = [''/home'', ''/home/u'']" by code_simp
  have pj: "path_join ''/home/u'' ''model-metadata.json'' = ''/home/u/model-metadata.json''"
    by (simp add: path_join_def)
  have dn: "dirname ''/home/u/model-metadata.json'' = ''/home/u''" by code_simp
  have v: "\<not> fails_validation (T_model_get ''o/m'' None) metadata_world" by simp
  have old: "map_of (w_files metadata_world) ''/home/u/model-metadata.json''
               = Some (RawText ''old'', 384)"
    by (simp add: metadata_world_def)
  have mk: "makedirs ''/home/u'' metadata_world = (Inr (), metadata_world)"
    by (simp add: makedirs_def an isfile_def isdir_def metadata_world_def)
  have call: "api_const ?r (Api ''model_get'' [PStr ''o/m''] []) metadata_world
                = (Inr ?r, metadata_world)"
    by (simp add: api_const_def)
  have d: "to_dict_or_vars ?r = Inr [(''slug'', PStr ''m'')]"
    "json_ok (PDict [(''slug'', PStr ''m'')])"
    by (simp_all add: sdk_object_def)
  have op: "open_w_error metadata_world (path_join ''/home/u'' ''model-metadata.json'') = None"
    unfolding pj by (simp add: open_w_error_def dn isdir_def metadata_world_def)
  have p: "''/home/u'' = (case None of None \<Rightarrow> w_cwd metadata_world | Some q \<Rightarrow> q)"
    by (simp add: metadata_world_def)
  have mode: "\<And>x m. map_of (w_files (snd x)) ''/home/u/model-metadata.json''
                 = Some (JsonText (PDict [(''slug'', PStr ''m'')]), m) \<Longrightarrow>
               x = run (api_const ?r) (T_model_get ''o/m'' None) metadata_world \<Longrightarrow> m = 384"
    by (simp add: model_get_def try_io_call_def try_call_def call_api_def api_const_def
        sdk_object_def save_metadata_def write_json_def open_w_error_def put_file_def pj dn
        makedirs_def an isfile_def isdir_def metadata_world_def Let_def)
  from get_saves_metadata
         [of "T_model_get ''o/m'' None" "''model_get''" "''model-metadata.json''" "''o/m''" None
             metadata_world "''/home/u''" metadata_world "api_const ?r" ?r metadata_world
             "[(''slug'', PStr ''m'')]", OF _ v p mk call d op]
  have "is_success (fst (run (api_const ?r) (T_model_get ''o/m'' None) metadata_world))
      \<and> map_of (fst (run (api_const ?r) (T_model_get ''o/m'' None) metadata_world)) ''data''
          = Some (PDict [(''slug'', PStr ''m'')])
      \<and> (\<exists>m. map_of (w_files (snd (run (api_const ?r) (T_model_get ''o/m'' None) metadata_world)))
                  ''/home/u/model-metadata.json''
                = Some (JsonText (PDict [(''slug'', PStr ''m'')]), m))
      \<and> w_log (snd (run (api_const ?r) (T_model_get ''o/m'' None) metadata_world))
          = [(Executor, Api ''model_get'' [PStr ''o/m''] [])]"
    unfolding pj by (simp add: metadata_world_def)
  with mode v old mk call d op show ?thesis by blast
qed

text \<open>
  The claim as it was written, for every response the delegate returns, fails: with an
  object that has no \<open>to_dict()\<close> and whose \<open>__dict__\<close> holds another object,
  \<open>json.dump\<close> raises after the file has been opened, the adapter returns an error
  envelope and the file holds the beginning of a JSON text; with \<open>None\<close> for a
  response, the adapter returns an error envelope and the file system is as it was.
\<close>

theorem model_get_unserialisable_response:
  "api_const (PObj None [] [(''created'', PObj None [] [])]) (Api ''model_get'' [PStr ''o/m''] [])
       home_world
     = (Inr (PObj None [] [(''created'', PObj None [] [])]), home_world)
   \<and> is_error (fst (run (api_const (PObj None [] [(''created'', PObj None [] [])]))
                    (T_model_get ''o/m'' None) home_world))
   \<and> map_of (w_files (snd (run (api_const (PObj None [] [(''created'', PObj None [] [])]))
                    (T_model_get ''o/m'' None) home_world))) ''/home/u/model-metadata.json''
       = Some (PartialJson, 420)
   \<and> api_const PNone (Api ''model_get'' [PStr ''o/m''] []) home_world = (Inr PNone, home_world)
   \<and> is_error (fst (run (api_const PNone) (T_model_get ''o/m'' None) home_world))
   \<and> w_files (snd (run (api_const PNone) (T_model_get ''o/m'' None) home_world)) = []
   \<and> w_dirs (snd (run (api_const PNone) (T_model_get ''o/m'' None) home_world))
       = w_dirs home_world"
proof -
  have an: "ancestors ''/home/u'' = [''/home'', ''/home/u'']" by code_simp
  have dn: "dirname ''/home/u/model-metadata.json'' = ''/home/u''" by code_simp
  have m: "nat (438 AND NOT 18) = 420" by code_simp
  show ?thesis
    by (simp add: model_get_def try_io_call_def try_call_def call_api_def api_const_def
        save_metadata_def write_json_def open_w_error_def put_file_def path_join_def dn m
        makedirs_def an isfile_def isdir_def home_world_def Let_def is_error_def status_of_def)
qed

end
